theory Spec2Isabelle
  imports Complex_Main "HOL-Library.Char_ord" "HOL-Library.List_Lexorder"
begin

section \<open>Python primitives used by the AEGIS ML models\<close>

text \<open>
  Python floats are modelled as reals (finite floats, rounding error ignored).
  Where the source guards against a float that is None, NaN or infinite
  (\<^verbatim>\<open>_safe_value\<close>, \<^verbatim>\<open>safe_float\<close>), such a value is \<open>None\<close> of
  \<open>real option\<close>.
\<close>

datatype TierLevel = FREE | BASIC | STANDARD | PREMIUM | ENTERPRISE

datatype py_error =
    ValueError string
  | RuntimeError string
  | KeyError TierLevel
  | NotFittedError
  | BuiltinTypeError
  | BuiltinValueError

text \<open>
  \<open>BuiltinTypeError\<close> and \<open>BuiltinValueError\<close> are the \<^verbatim>\<open>TypeError\<close> and the
  \<^verbatim>\<open>ValueError\<close> that the built-in conversions \<^verbatim>\<open>float\<close>, \<^verbatim>\<open>int\<close> and
  \<^verbatim>\<open>datetime.fromisoformat\<close> raise; their messages are not modelled.
\<close>

text \<open>\<^verbatim>\<open>int(x)\<close> on a float truncates towards zero.\<close>

definition py_int :: "real \<Rightarrow> int" where
  "py_int x = (if 0 \<le> x then \<lfloor>x\<rfloor> else \<lceil>x\<rceil>)"

text \<open>\<^verbatim>\<open>round(x)\<close> with one argument returns an int, ties going to the even neighbour.\<close>

definition py_round :: "real \<Rightarrow> int" where
  "py_round x =
     (let f = \<lfloor>x\<rfloor>; d = x - of_int f
      in if d < 1 / 2 then f
         else if 1 / 2 < d then f + 1
         else if even f then f else f + 1)"

text \<open>\<^verbatim>\<open>str.lower()\<close>, on ASCII letters.\<close>

definition lower_char :: "char \<Rightarrow> char" where
  "lower_char c =
     (case map_of (zip ''ABCDEFGHIJKLMNOPQRSTUVWXYZ'' ''abcdefghijklmnopqrstuvwxyz'') c of
        None \<Rightarrow> c
      | Some l \<Rightarrow> l)"

definition lower :: "string \<Rightarrow> string" where
  "lower s = map lower_char s"

text \<open>
  An f-string is kept as the sequence of its pieces: literal text, and every interpolated
  number together with its format specification (\<^verbatim>\<open>{x:.0f}\<close>, \<^verbatim>\<open>{x:.1f}\<close>,
  \<^verbatim>\<open>{x:.1%}\<close>, \<^verbatim>\<open>{x:.2%}\<close>, \<^verbatim>\<open>{n}\<close>, \<^verbatim>\<open>{n:,}\<close>, \<^verbatim>\<open>{x}\<close>). The rendering of
  the numbers to digits is Python's and is not modelled.
\<close>

datatype piece =
    Lit string
  | Fmt_f0 real
  | Fmt_f1 real
  | Fmt_pct1 real
  | Fmt_pct2 real
  | Fmt_int int
  | Fmt_int_comma int
  | Fmt_float real

type_synonym py_text = "piece list"

section \<open>Rate limit optimizer: data model\<close>

datatype OptimizationStrategy = CONSERVATIVE | BALANCED | PERMISSIVE | ADAPTIVE

definition strategy_value :: "OptimizationStrategy \<Rightarrow> string" where
  "strategy_value s =
     (case s of CONSERVATIVE \<Rightarrow> ''conservative'' | BALANCED \<Rightarrow> ''balanced''
      | PERMISSIVE \<Rightarrow> ''permissive'' | ADAPTIVE \<Rightarrow> ''adaptive'')"

record EndpointProfile =
  endpoint :: string
  profile_method :: string
  avg_requests_per_minute :: "real option"
  peak_requests_per_minute :: "real option"
  p95_requests_per_minute :: "real option"
  avg_latency_ms :: "real option"
  error_rate :: "real option"
  unique_users :: int
  total_requests :: int
  typical_burst_size :: int
  time_of_day_variance :: "real option"

record RateLimitRecommendation =
  rec_endpoint :: string
  rec_tier :: string
  current_limit :: "int option"
  recommended_limit :: int
  recommended_burst :: int
  rec_confidence :: real
  reasoning :: py_text
  rec_strategy :: OptimizationStrategy
  warnings :: "py_text list"
  rec_profile :: "EndpointProfile option"

record TierConfiguration =
  tier :: TierLevel
  base_limit :: int
  burst_multiplier :: real
  max_limit :: int
  min_limit :: int

definition get_burst_size :: "TierConfiguration \<Rightarrow> int" where
  "get_burst_size c = py_int (of_int (base_limit c) * burst_multiplier c)"

definition mk_tier :: "TierLevel \<Rightarrow> int \<Rightarrow> real \<Rightarrow> int \<Rightarrow> int \<Rightarrow> TierConfiguration" where
  "mk_tier t b m mx mn =
     \<lparr>tier = t, base_limit = b, burst_multiplier = m, max_limit = mx, min_limit = mn\<rparr>"

definition DEFAULT_TIER_CONFIGS :: "TierLevel \<rightharpoonup> TierConfiguration" where
  "DEFAULT_TIER_CONFIGS t =
     (case t of
        FREE \<Rightarrow> Some (mk_tier FREE 60 (12 / 10) 100 10)
      | BASIC \<Rightarrow> Some (mk_tier BASIC 100 (15 / 10) 300 30)
      | STANDARD \<Rightarrow> Some (mk_tier STANDARD 300 (15 / 10) 1000 100)
      | PREMIUM \<Rightarrow> Some (mk_tier PREMIUM 1000 2 5000 300)
      | ENTERPRISE \<Rightarrow> Some (mk_tier ENTERPRISE 5000 (25 / 10) 50000 1000))"

definition STRATEGY_MULTIPLIERS :: "OptimizationStrategy \<Rightarrow> real" where
  "STRATEGY_MULTIPLIERS s =
     (case s of CONSERVATIVE \<Rightarrow> 7 / 10 | BALANCED \<Rightarrow> 1 | PERMISSIVE \<Rightarrow> 13 / 10
      | ADAPTIVE \<Rightarrow> 1)"

text \<open>
  The optimizer's state. \<open>endpoint_profiles\<close> is a Python dict, kept as an association
  list in key order of insertion (distinct keys); \<open>tier_configs\<close> is the dict given at
  construction, or the default table when none or an empty one is given.
\<close>

record RateLimitOptimizer =
  strategy :: OptimizationStrategy
  headroom_percent :: real
  tier_configs :: "TierLevel \<rightharpoonup> TierConfiguration"
  endpoint_profiles :: "(string \<times> EndpointProfile) list"
  opt_is_trained :: bool

definition RateLimitOptimizer_init ::
  "OptimizationStrategy \<Rightarrow> real \<Rightarrow> (TierLevel \<rightharpoonup> TierConfiguration) option
     \<Rightarrow> RateLimitOptimizer" where
  "RateLimitOptimizer_init s h tc =
     \<lparr>strategy = s, headroom_percent = h,
      tier_configs = (case tc of None \<Rightarrow> DEFAULT_TIER_CONFIGS
                      | Some c \<Rightarrow>
                          if c FREE = None \<and> c BASIC = None \<and> c STANDARD = None
                             \<and> c PREMIUM = None \<and> c ENTERPRISE = None
                          then DEFAULT_TIER_CONFIGS else c),
      endpoint_profiles = [], opt_is_trained = False\<rparr>"

definition safe_value :: "real option \<Rightarrow> real \<Rightarrow> real" where
  "safe_value v d = (case v of None \<Rightarrow> d | Some f \<Rightarrow> f)"

section \<open>Rate limit optimizer: recommendation arithmetic\<close>

definition round_to_nice_number :: "real \<Rightarrow> int" where
  "round_to_nice_number v =
     (if v < 10 then max 1 (py_round v)
      else if v < 50 then py_round (v / 5) * 5
      else if v < 100 then py_round (v / 10) * 10
      else if v < 500 then py_round (v / 25) * 25
      else if v < 1000 then py_round (v / 50) * 50
      else if v < 5000 then py_round (v / 100) * 100
      else py_round (v / 500) * 500)"

definition calculate_base_limit :: "RateLimitOptimizer \<Rightarrow> EndpointProfile \<Rightarrow> int" where
  "calculate_base_limit opt p =
     (let headroom_multiplier = 1 + headroom_percent opt / 100;
          p95_rpm = safe_value (p95_requests_per_minute p) 10;
          base = p95_rpm * headroom_multiplier
      in round_to_nice_number (max base 10))"

text \<open>The burst before the final rounding of \<^verbatim>\<open>_calculate_burst_size\<close>.\<close>

definition burst_before_rounding :: "EndpointProfile \<Rightarrow> int \<Rightarrow> int" where
  "burst_before_rounding p rate_limit =
     (let typical_burst = py_int (safe_value (Some (of_int (typical_burst_size p))) 10);
          min_burst = max 10 (rate_limit div 6);
          max_burst = rate_limit
      in max min_burst (min (typical_burst * 2) max_burst))"

definition calculate_burst_size :: "EndpointProfile \<Rightarrow> int \<Rightarrow> int" where
  "calculate_burst_size p rate_limit =
     round_to_nice_number (of_int (burst_before_rounding p rate_limit))"

definition get_tier_multiplier :: "string \<Rightarrow> real" where
  "get_tier_multiplier t =
     (let k = lower t
      in if k = ''free'' then 1 / 2
         else if k = ''basic'' then 3 / 4
         else if k = ''default'' then 1
         else if k = ''standard'' then 3 / 2
         else if k = ''premium'' then 5 / 2
         else if k = ''enterprise'' then 5
         else 1)"

definition calculate_adaptive_multiplier :: "EndpointProfile \<Rightarrow> real" where
  "calculate_adaptive_multiplier p =
     (let variance = safe_value (time_of_day_variance p) 0;
          err = safe_value (error_rate p) 0;
          avg_latency = safe_value (avg_latency_ms p) 0;
          variance_factor = max (1 / 2) (1 - variance * (3 / 10));
          error_factor = max (1 / 2) (1 - err * 2);
          latency_factor = (if avg_latency < 100 then 1 else 8 / 10)
      in variance_factor * error_factor * latency_factor)"

definition calculate_confidence :: "EndpointProfile \<Rightarrow> real" where
  "calculate_confidence p =
     (let total = safe_value (Some (of_int (total_requests p))) 0;
          data_confidence = (if 0 < total then min 1 (total / 10000) else 0);
          variance = safe_value (time_of_day_variance p) 0;
          variance_confidence = max (3 / 10) (1 - variance)
      in data_confidence * (6 / 10) + variance_confidence * (4 / 10))"

definition py_join :: "'a list \<Rightarrow> 'a list list \<Rightarrow> 'a list" where
  "py_join sep xs = (case xs of [] \<Rightarrow> [] | y # ys \<Rightarrow> y @ concat (map (\<lambda>z. sep @ z) ys))"

definition build_reasoning ::
  "RateLimitOptimizer \<Rightarrow> EndpointProfile \<Rightarrow> int \<Rightarrow> int \<Rightarrow> OptimizationStrategy \<Rightarrow> py_text" where
  "build_reasoning opt p base recommended strat =
     (let total = py_int (safe_value (Some (of_int (total_requests p))) 0);
          avg_rpm = safe_value (avg_requests_per_minute p) 0;
          peak_rpm = safe_value (peak_requests_per_minute p) 0;
          err = safe_value (error_rate p) 0;
          parts =
            [[Lit ''Based on '', Fmt_int_comma total, Lit '' historical requests.''],
             [Lit ''Normal traffic: ~'', Fmt_f0 avg_rpm, Lit '' req/min,''],
             [Lit ''Peak traffic: ~'', Fmt_f0 peak_rpm, Lit '' req/min.''],
             [Lit ''Using '', Lit (strategy_value strat), Lit '' strategy with '',
              Fmt_float (headroom_percent opt), Lit ''% headroom.'']]
            @ (if 5 / 100 < err
               then [[Lit ''Note: High error rate ('', Fmt_pct1 err,
                      Lit '') suggests backend issues.'']]
               else [])
      in py_join [Lit '' ''] parts)"

definition generate_warnings ::
  "EndpointProfile \<Rightarrow> int option \<Rightarrow> int \<Rightarrow> py_text list" where
  "generate_warnings p cur recommended =
     (let err = safe_value (error_rate p) 0;
          variance = safe_value (time_of_day_variance p) 0;
          total = py_int (safe_value (Some (of_int (total_requests p))) 0)
      in (case cur of
            None \<Rightarrow> []
          | Some c \<Rightarrow>
              if c \<noteq> 0 \<and> of_int recommended < of_int c * (7 / 10 :: real)
              then [[Lit ''Recommended limit is significantly lower than current ('',
                     Fmt_int c, Lit ''). This may affect some users.'']]
              else [])
         @ (if 1 / 10 < err
            then [[Lit ''High error rate ('', Fmt_pct1 err, Lit '') detected. '',
                   Lit ''Consider investigating backend issues before adjusting limits.'']]
            else [])
         @ (if 8 / 10 < variance
            then [[Lit ''Traffic has high time-of-day variance. '',
                   Lit ''Consider time-based rate limits.'']]
            else [])
         @ (if total < 1000
            then [[Lit ''Limited historical data ('', Fmt_int total, Lit '' requests). '',
                   Lit ''Recommendation confidence is lower.'']]
            else []))"

definition tier_mapping :: "string \<Rightarrow> TierLevel" where
  "tier_mapping t =
     (let k = lower t
      in if k = ''free'' then FREE
         else if k = ''basic'' then BASIC
         else if k = ''default'' then STANDARD
         else if k = ''standard'' then STANDARD
         else if k = ''premium'' then PREMIUM
         else if k = ''enterprise'' then ENTERPRISE
         else STANDARD)"

definition generate_default_recommendation ::
  "RateLimitOptimizer \<Rightarrow> string \<Rightarrow> string \<Rightarrow> int option \<Rightarrow> OptimizationStrategy
     \<Rightarrow> py_error + RateLimitRecommendation" where
  "generate_default_recommendation opt e t cur strat =
     (let tier_level = tier_mapping t
      in case tier_configs opt tier_level of
           None \<Rightarrow> Inl (KeyError tier_level)
         | Some config \<Rightarrow>
             Inr \<lparr>rec_endpoint = e, rec_tier = t, current_limit = cur,
                  recommended_limit =
                    py_int (of_int (base_limit config) * STRATEGY_MULTIPLIERS strat),
                  recommended_burst = get_burst_size config,
                  rec_confidence = 3 / 10,
                  reasoning = [Lit ''No historical data available for endpoint. Using default '',
                               Lit t, Lit '' tier limits.''],
                  rec_strategy = strat,
                  warnings =
                    [[Lit ''No traffic data available. Using default tier configuration.'']],
                  rec_profile = None\<rparr>)"

text \<open>The limit computed by \<^verbatim>\<open>recommend\<close> for a profiled endpoint.\<close>

definition profiled_limit ::
  "RateLimitOptimizer \<Rightarrow> EndpointProfile \<Rightarrow> string \<Rightarrow> OptimizationStrategy \<Rightarrow> int" where
  "profiled_limit opt p t strat =
     (let base = calculate_base_limit opt p;
          tier_multiplier = get_tier_multiplier t;
          tier_adjusted_limit = py_int (of_int base * tier_multiplier);
          strategy_multiplier =
            (if strat = ADAPTIVE then calculate_adaptive_multiplier p
             else STRATEGY_MULTIPLIERS strat)
      in py_int (of_int tier_adjusted_limit * strategy_multiplier))"

definition recommend ::
  "RateLimitOptimizer \<Rightarrow> string \<Rightarrow> string \<Rightarrow> int option
     \<Rightarrow> OptimizationStrategy option \<Rightarrow> py_error + RateLimitRecommendation" where
  "recommend opt e t cur strat_arg =
     (let strat = (case strat_arg of None \<Rightarrow> strategy opt | Some s \<Rightarrow> s)
      in case map_of (endpoint_profiles opt) e of
           None \<Rightarrow> generate_default_recommendation opt e t cur strat
         | Some p \<Rightarrow>
             (let base = calculate_base_limit opt p;
                  lim = profiled_limit opt p t strat
              in Inr \<lparr>rec_endpoint = e, rec_tier = t, current_limit = cur,
                      recommended_limit = lim,
                      recommended_burst = calculate_burst_size p lim,
                      rec_confidence = calculate_confidence p,
                      reasoning = build_reasoning opt p base lim strat,
                      rec_strategy = strat,
                      warnings = generate_warnings p cur lim,
                      rec_profile = Some p\<rparr>))"

text \<open>
  \<^verbatim>\<open>recommend_all\<close> is a list comprehension over the keys of the profile dict; an
  exception in one element aborts the whole comprehension.
\<close>

fun collect :: "(py_error + 'a) list \<Rightarrow> py_error + 'a list" where
  "collect [] = Inr []"
| "collect (x # xs) =
     (case x of
        Inl err \<Rightarrow> Inl err
      | Inr v \<Rightarrow> (case collect xs of Inl err \<Rightarrow> Inl err | Inr vs \<Rightarrow> Inr (v # vs)))"


section \<open>Numeric helpers (numpy and pandas reductions)\<close>

definition mean :: "real list \<Rightarrow> real" where
  "mean xs = sum_list xs / real (length xs)"

text \<open>Maximum and minimum of a non-empty list; callers guard the empty case.\<close>

definition list_max :: "real list \<Rightarrow> real" where
  "list_max xs = fold max (tl xs) (hd xs)"

definition list_min :: "real list \<Rightarrow> real" where
  "list_min xs = fold min (tl xs) (hd xs)"

text \<open>
  \<^verbatim>\<open>np.percentile(xs, q)\<close> with the default linear interpolation, for a non-empty
  list and \<open>0 \<le> q \<le> 100\<close>.
\<close>

definition percentile :: "real list \<Rightarrow> real \<Rightarrow> real" where
  "percentile xs q =
     (let s = sort xs;
          n = length xs;
          pos = q / 100 * (real n - 1);
          lo = nat \<lfloor>pos\<rfloor>;
          hi = min (lo + 1) (n - 1);
          frac = pos - of_int \<lfloor>pos\<rfloor>
      in s ! lo + frac * (s ! hi - s ! lo))"

text \<open>\<^verbatim>\<open>np.std\<close> (population) and the pandas \<^verbatim>\<open>Series.std\<close> (sample; NaN below two values).\<close>

definition np_std :: "real list \<Rightarrow> real" where
  "np_std xs = sqrt (sum_list (map (\<lambda>x. (x - mean xs)\<^sup>2) xs) / real (length xs))"

definition pd_std :: "real list \<Rightarrow> real option" where
  "pd_std xs =
     (if length xs < 2 then None
      else Some (sqrt (sum_list (map (\<lambda>x. (x - mean xs)\<^sup>2) xs) / (real (length xs) - 1))))"

section \<open>Endpoint profiler\<close>

text \<open>
  A request record of the traffic frame; timestamps are whole seconds. Which of the
  optional columns the frame has is a property of the frame (\<open>frame_columns\<close>): the
  fields of an absent column are not read. The column aliases (\<^verbatim>\<open>path\<close>,
  \<^verbatim>\<open>latency\<close>, the time column) are taken as already renamed.
\<close>

record request =
  req_endpoint :: string
  req_timestamp :: int
  req_response_time_ms :: real
  req_status_code :: int
  req_user_id :: string
  req_ip_address :: string
  req_method :: string

record frame_columns =
  has_timestamp :: bool
  has_response_time_ms :: bool
  has_status_code :: bool
  has_user_id :: bool
  has_ip_address :: bool
  has_method :: bool

text \<open>
  \<^verbatim>\<open>resample(w).size()\<close>: the number of rows in every bucket of width \<open>w\<close> seconds from
  the first occupied bucket to the last, empty buckets included.
\<close>

definition resample_size :: "int \<Rightarrow> int list \<Rightarrow> real list" where
  "resample_size w ts =
     (case ts of
        [] \<Rightarrow> []
      | t # rest \<Rightarrow>
          (let bs = map (\<lambda>u. u div w) ts;
               lo = fold min (tl bs) (hd bs);
               hi = fold max (tl bs) (hd bs)
           in map (\<lambda>b. real (length (filter (\<lambda>c. c = b) bs))) [lo..hi]))"

text \<open>The local \<^verbatim>\<open>safe_float\<close> of \<^verbatim>\<open>_build_endpoint_profile\<close>.\<close>

definition safe_float :: "real option \<Rightarrow> real" where
  "safe_float v = (case v of None \<Rightarrow> 0 | Some f \<Rightarrow> f)"

text \<open>The mean of a pandas series: NaN when the series is empty.\<close>

definition pd_mean :: "real list \<Rightarrow> real option" where
  "pd_mean xs = (if xs = [] then None else Some (mean xs))"

text \<open>
  \<^verbatim>\<open>Series.mode().iloc[0]\<close>: the most frequent value, the least one among several;
  \<open>None\<close> when the series is empty.
\<close>

definition mode_first :: "string list \<Rightarrow> string option" where
  "mode_first xs =
     (case sort (remdups xs) of
        [] \<Rightarrow> None
      | k # ks \<Rightarrow>
          (let top = fold max (map (count_list xs) ks) (count_list xs k)
           in find (\<lambda>v. count_list xs v = top) (k # ks)))"

definition typical_burst_of :: "real \<Rightarrow> int" where
  "typical_burst_of peak_rpm =
     (let burst_factor = 3 in max 1 (py_int ((peak_rpm / 60) * burst_factor)))"

definition build_endpoint_profile ::
  "frame_columns \<Rightarrow> string \<Rightarrow> request list \<Rightarrow> EndpointProfile" where
  "build_endpoint_profile cols e data =
     (let minute_counts =
            (if has_timestamp cols then resample_size 60 (map req_timestamp data)
             else [real (length data)]);
          avg_rpm = (if 0 < length minute_counts then safe_float (pd_mean minute_counts) else 0);
          peak_rpm = (if 0 < length minute_counts then safe_float (Some (list_max minute_counts))
                      else 0);
          p95_rpm = (if 0 < length minute_counts
                     then safe_float (Some (percentile minute_counts 95)) else 0);
          variance =
            (if has_timestamp cols
             then (let hourly = resample_size 3600 (map req_timestamp data);
                       hourly_mean = safe_float (pd_mean hourly);
                       hourly_std = safe_float (pd_std hourly)
                   in if 0 < hourly_mean then hourly_std / hourly_mean else 0)
             else 0);
          typical_burst = typical_burst_of peak_rpm;
          avg_latency =
            (if has_response_time_ms cols
             then safe_float (pd_mean (map req_response_time_ms data)) else 0);
          err =
            (if has_status_code cols
             then (let error_count = length (filter (\<lambda>r. 400 \<le> req_status_code r) data)
                   in if 0 < length data
                      then safe_float (Some (real error_count / real (length data))) else 0)
             else 0);
          users =
            (if has_user_id cols then length (remdups (map req_user_id data))
             else if has_ip_address cols then length (remdups (map req_ip_address data))
             else 0);
          meth =
            (if has_method cols
             then (case mode_first (map req_method data) of None \<Rightarrow> ''ALL'' | Some v \<Rightarrow> v)
             else ''ALL'')
      in \<lparr>endpoint = e, profile_method = meth,
          avg_requests_per_minute = Some avg_rpm,
          peak_requests_per_minute = Some peak_rpm,
          p95_requests_per_minute = Some p95_rpm,
          avg_latency_ms = Some avg_latency,
          error_rate = Some err,
          unique_users = int users,
          total_requests = int (length data),
          typical_burst_size = typical_burst,
          time_of_day_variance = Some variance\<rparr>)"

text \<open>
  \<^verbatim>\<open>analyze_traffic\<close>: one profile per endpoint, the groups in sorted key order as
  \<^verbatim>\<open>groupby\<close> yields them; the stored profiles are replaced as a whole.
\<close>

definition analyze_traffic ::
  "RateLimitOptimizer \<Rightarrow> frame_columns \<Rightarrow> request list \<Rightarrow> RateLimitOptimizer" where
  "analyze_traffic opt cols df =
     opt\<lparr>endpoint_profiles :=
           map (\<lambda>e. (e, build_endpoint_profile cols e (filter (\<lambda>r. req_endpoint r = e) df)))
               (sort (remdups (map req_endpoint df))),
         opt_is_trained := True\<rparr>"

text \<open>Rounding to the nearest integer, as the specification words it (either neighbour on a tie).\<close>

definition nearest_multiple :: "int \<Rightarrow> real \<Rightarrow> int \<Rightarrow> bool" where
  "nearest_multiple step v r \<longleftrightarrow> step dvd r \<and> 2 * \<bar>of_int r - v\<bar> \<le> of_int step"

definition round_step :: "int \<Rightarrow> real \<Rightarrow> int" where
  "round_step s v = py_round (v / of_int s) * s"

section \<open>Anomaly detector: data model\<close>

datatype AnomalyType =
    TRAFFIC_SPIKE | LATENCY_SPIKE | ERROR_RATE_SPIKE | TRAFFIC_DROP | PATTERN_ANOMALY
  | MULTI_DIMENSIONAL

datatype AnomalySeverity = LOW | MEDIUM | HIGH | CRITICAL

text \<open>
  A metrics sample. The fields \<open>m_avg_latency_ms\<close>, \<open>m_error_rate\<close> and
  \<open>m_total_requests\<close> are \<^verbatim>\<open>avg_latency_ms\<close>, \<^verbatim>\<open>error_rate\<close> and \<^verbatim>\<open>total_requests\<close> of
  \<^verbatim>\<open>TrafficMetrics\<close>; timestamps are whole seconds.
\<close>

record TrafficMetrics =
  timestamp :: int
  requests_per_second :: real
  m_avg_latency_ms :: real
  p95_latency_ms :: real
  p99_latency_ms :: real
  m_error_rate :: real
  status_2xx :: int
  status_4xx :: int
  status_5xx :: int
  m_total_requests :: int











record AnomalyResult =
  is_anomaly :: bool
  score :: real
  normalized_score :: real
  anomaly_type :: "AnomalyType option"
  severity :: "AnomalySeverity option"
  confidence :: real
  features :: "(string \<times> real) list"
  explanation :: py_text
  res_timestamp :: int

definition FEATURE_NAMES :: "string list" where
  "FEATURE_NAMES =
     [''requests_per_second'', ''avg_latency_ms'', ''p95_latency_ms'', ''p99_latency_ms'',
      ''error_rate'']"

definition to_feature_array :: "TrafficMetrics \<Rightarrow> real list" where
  "to_feature_array m =
     [requests_per_second m, m_avg_latency_ms m, p95_latency_ms m, p99_latency_ms m,
      m_error_rate m]"

text \<open>The statistics kept per feature (the inner dict of \<^verbatim>\<open>baselines\<close>).\<close>

record baseline =
  b_mean :: real
  b_std :: real
  b_median :: real
  b_q25 :: real
  b_q75 :: real
  b_iqr :: real
  b_min :: real
  b_max :: real

text \<open>
  The scikit-learn objects are outside the repository. A fitted isolation forest is the
  pair of its \<^verbatim>\<open>decision_function\<close> and \<^verbatim>\<open>predict\<close> on one scaled sample, a fitted
  scaler is its \<^verbatim>\<open>transform\<close>; fitting is a parameter (\<open>sklearn\<close>): the forest is fitted
  from the contamination, the number of estimators, the random state and the scaled
  samples, and may reject its parameters.
\<close>

record forest =
  decision_function :: "real list \<Rightarrow> real"
  predict :: "real list \<Rightarrow> int"

record sklearn =
  fit_scaler :: "real list list \<Rightarrow> (real list \<Rightarrow> real list)"
  fit_forest :: "real \<Rightarrow> int \<Rightarrow> int \<Rightarrow> real list list \<Rightarrow> py_error + forest"

record AnomalyDetector =
  contamination :: real
  n_estimators :: int
  random_state :: int
  threshold_multiplier :: real
  model :: "forest option"
  scaler :: "(real list \<Rightarrow> real list) option"
  baselines :: "(string \<times> baseline) list"
  is_trained :: bool
  training_timestamp :: "int option"
  training_samples :: int
  score_threshold :: real

definition AnomalyDetector_init :: "real \<Rightarrow> int \<Rightarrow> int \<Rightarrow> real \<Rightarrow> AnomalyDetector" where
  "AnomalyDetector_init c n r t =
     \<lparr>contamination = c, n_estimators = n, random_state = r, threshold_multiplier = t,
      model = None, scaler = None, baselines = [], is_trained = False,
      training_timestamp = None, training_samples = 0, score_threshold = - (1 / 2)\<rparr>"

section \<open>Anomaly detector: training\<close>

text \<open>
  A cell of the training frame: a finite number, NaN (missing), or an infinity. A frame
  row has the five feature columns in the order of \<^verbatim>\<open>FEATURE_NAMES\<close>.
\<close>

datatype cell = Num real | NaN | PosInf | NegInf

type_synonym frame_row = "cell \<times> cell \<times> cell \<times> cell \<times> cell"

datatype training_data = DataFrame "frame_row list" | MetricsList "TrafficMetrics list"

definition row_cells :: "frame_row \<Rightarrow> cell list" where
  "row_cells r = (case r of (a, b, c, d, e) \<Rightarrow> [a, b, c, d, e])"

definition to_rows :: "training_data \<Rightarrow> cell list list" where
  "to_rows data =
     (case data of
        DataFrame rows \<Rightarrow> map row_cells rows
      | MetricsList ms \<Rightarrow> map (\<lambda>m. map Num (to_feature_array m)) ms)"

definition frame_columns_of :: "cell list list \<Rightarrow> cell list list" where
  "frame_columns_of rows = map (\<lambda>j. map (\<lambda>r. r ! j) rows) [0..<5]"

definition finite_values :: "cell list \<Rightarrow> real list" where
  "finite_values col = concat (map (\<lambda>c. case c of Num x \<Rightarrow> [x] | _ \<Rightarrow> []) col)"

fun cell_avg :: "cell \<Rightarrow> cell \<Rightarrow> cell" where
  "cell_avg (Num x) (Num y) = Num ((x + y) / 2)"
| "cell_avg NaN _ = NaN"
| "cell_avg _ NaN = NaN"
| "cell_avg NegInf PosInf = NaN"
| "cell_avg PosInf NegInf = NaN"
| "cell_avg PosInf _ = PosInf"
| "cell_avg _ PosInf = PosInf"
| "cell_avg NegInf _ = NegInf"
| "cell_avg _ NegInf = NegInf"

text \<open>
  The column median of \<^verbatim>\<open>df.median()\<close>: missing cells are skipped, infinities take part;
  NaN for a column without values.
\<close>

definition col_median :: "cell list \<Rightarrow> cell" where
  "col_median col =
     (let fin = sort (finite_values col);
          a = length (filter (\<lambda>c. c = NegInf) col);
          b = length (filter (\<lambda>c. c = PosInf) col);
          n = a + length fin + b;
          pick = (\<lambda>i. if i < a then NegInf
                     else if i < a + length fin then Num (fin ! (i - a))
                     else PosInf)
      in if n = 0 then NaN
         else if odd n then pick (n div 2)
         else cell_avg (pick (n div 2 - 1)) (pick (n div 2)))"

definition fillna :: "cell list list \<Rightarrow> cell list list" where
  "fillna rows =
     (let med = map col_median (frame_columns_of rows)
      in map (\<lambda>r. map (\<lambda>(c, m). if c = NaN then m else c) (zip r med)) rows)"

definition replace_inf :: "cell list list \<Rightarrow> cell list list" where
  "replace_inf rows =
     map (map (\<lambda>c. case c of PosInf \<Rightarrow> NaN | NegInf \<Rightarrow> NaN | _ \<Rightarrow> c)) rows"

definition dropna :: "cell list list \<Rightarrow> cell list list" where
  "dropna rows = filter (list_all (\<lambda>c. c \<noteq> NaN)) rows"

definition num_of :: "cell \<Rightarrow> real" where
  "num_of c = (case c of Num x \<Rightarrow> x | _ \<Rightarrow> 0)"

text \<open>The frame \<^verbatim>\<open>df\<close> that \<^verbatim>\<open>train\<close> goes on with: only finite numbers are left.\<close>

definition clean_frame :: "training_data \<Rightarrow> real list list" where
  "clean_frame data = map (map num_of) (dropna (replace_inf (fillna (to_rows data))))"

definition np_median :: "real list \<Rightarrow> real" where
  "np_median xs =
     (let s = sort xs; n = length xs
      in if odd n then s ! (n div 2) else (s ! (n div 2 - 1) + s ! (n div 2)) / 2)"

definition compute_baselines :: "real list list \<Rightarrow> (string \<times> baseline) list" where
  "compute_baselines df =
     map (\<lambda>(j, feature).
            (let v = map (\<lambda>r. r ! j) df
             in (feature,
                 \<lparr>b_mean = mean v, b_std = np_std v, b_median = np_median v,
                  b_q25 = percentile v 25, b_q75 = percentile v 75,
                  b_iqr = percentile v 75 - percentile v 25,
                  b_min = list_min v, b_max = list_max v\<rparr>)))
         (zip [0..<5] FEATURE_NAMES)"

record training_summary =
  sum_samples :: int
  sum_features :: "string list"
  sum_contamination :: real
  sum_score_threshold :: real
  sum_baselines :: "(string \<times> baseline) list"
  sum_timestamp :: int

text \<open>
  \<^verbatim>\<open>train\<close>, with the detector passed and returned; \<open>now\<close> is the clock reading stored as
  the training timestamp. Every statement that assigns to \<^verbatim>\<open>self\<close> is an update of the
  returned detector, in the order of the source, so that an exception leaves the
  assignments made before it.
\<close>

definition train ::
  "sklearn \<Rightarrow> int \<Rightarrow> AnomalyDetector \<Rightarrow> training_data
     \<Rightarrow> (py_error + training_summary) \<times> AnomalyDetector" where
  "train env now d data =
     (let df = clean_frame data
      in if length df < 10
         then (Inl (ValueError ''Insufficient training data. Need at least 10 samples.''), d)
         else
           (let sc = fit_scaler env df;
                X_scaled = map sc df;
                d1 = d\<lparr>scaler := Some sc\<rparr>
            in case fit_forest env (contamination d) (n_estimators d) (random_state d) X_scaled of
                 Inl err \<Rightarrow> (Inl err, d1)
               | Inr f \<Rightarrow>
                   (let d2 = d1\<lparr>model := Some f, baselines := compute_baselines df\<rparr>;
                        scores = map (decision_function f) X_scaled;
                        q = (1 - contamination d) * 100
                    in if q < 0 \<or> 100 < q
                       then (Inl (ValueError ''Percentiles must be in the range [0, 100]''), d2)
                       else
                         (let d3 = d2\<lparr>score_threshold := percentile scores q,
                                      is_trained := True,
                                      training_timestamp := Some now,
                                      training_samples := int (length df)\<rparr>
                          in (Inr \<lparr>sum_samples = int (length df),
                                    sum_features = FEATURE_NAMES,
                                    sum_contamination = contamination d,
                                    sum_score_threshold = score_threshold d3,
                                    sum_baselines = baselines d3,
                                    sum_timestamp = now\<rparr>, d3)))))"

section \<open>Anomaly detector: detection\<close>

text \<open>\<^verbatim>\<open>np.clip(x, lo, hi)\<close>.\<close>

definition np_clip :: "real \<Rightarrow> real \<Rightarrow> real \<Rightarrow> real" where
  "np_clip x lo hi = min (max x lo) hi"

definition normalize_score :: "real \<Rightarrow> real" where
  "normalize_score raw_score = np_clip (1 / (1 + exp (raw_score * 5))) 0 1"

definition compute_z_score :: "real \<Rightarrow> real \<Rightarrow> real \<Rightarrow> real" where
  "compute_z_score v mu sd = (if sd = 0 then 0 else (v - mu) / sd)"

text \<open>Assignment to a key of a dict, kept in insertion order.\<close>

fun dict_set :: "'k \<Rightarrow> 'v \<Rightarrow> ('k \<times> 'v) list \<Rightarrow> ('k \<times> 'v) list" where
  "dict_set k v [] = [(k, v)]"
| "dict_set k v ((k', v') # rest) =
     (if k = k' then (k, v) # rest else (k', v') # dict_set k v rest)"

text \<open>\<^verbatim>\<open>max(d, key=d.get)\<close>: the first key, in insertion order, with the greatest value.\<close>

fun best_from :: "('k \<times> real) \<Rightarrow> ('k \<times> real) list \<Rightarrow> ('k \<times> real)" where
  "best_from b [] = b"
| "best_from b (kv # rest) = best_from (if snd b < snd kv then kv else b) rest"

definition identify_anomaly_type ::
  "AnomalyDetector \<Rightarrow> TrafficMetrics \<Rightarrow> AnomalyType option \<times> real" where
  "identify_anomaly_type d m =
     (let tm = threshold_multiplier d;
          ts1 = (case map_of (baselines d) ''requests_per_second'' of
                   None \<Rightarrow> []
                 | Some b \<Rightarrow>
                     (let z = compute_z_score (requests_per_second m) (b_mean b) (b_std b)
                      in if tm < z then dict_set TRAFFIC_SPIKE z []
                         else if z < - tm then dict_set TRAFFIC_DROP \<bar>z\<bar> []
                         else []));
          ts2 = (case map_of (baselines d) ''avg_latency_ms'' of
                   None \<Rightarrow> ts1
                 | Some b \<Rightarrow>
                     (let z = compute_z_score (m_avg_latency_ms m) (b_mean b) (b_std b)
                      in if tm < z then dict_set LATENCY_SPIKE z ts1 else ts1));
          ts3 = (case map_of (baselines d) ''p95_latency_ms'' of
                   None \<Rightarrow> ts2
                 | Some b \<Rightarrow>
                     (let z = compute_z_score (p95_latency_ms m) (b_mean b) (b_std b)
                      in if tm < z
                         then dict_set LATENCY_SPIKE
                                (max (case map_of ts2 LATENCY_SPIKE of None \<Rightarrow> 0 | Some v \<Rightarrow> v) z)
                                ts2
                         else ts2));
          ts4 = (case map_of (baselines d) ''error_rate'' of
                   None \<Rightarrow> ts3
                 | Some b \<Rightarrow>
                     (let z = compute_z_score (m_error_rate m) (b_mean b) (b_std b)
                      in if tm < z then dict_set ERROR_RATE_SPIKE z ts3 else ts3))
      in case ts4 of
           [] \<Rightarrow> (Some PATTERN_ANOMALY, 1 / 2)
         | kv # rest \<Rightarrow>
             if 2 < length ts4 then (Some MULTI_DIMENSIONAL, list_max (map snd ts4))
             else (let b = best_from kv rest in (Some (fst b), snd b)))"

definition determine_severity :: "real \<Rightarrow> AnomalySeverity" where
  "determine_severity normalized =
     (if 9 / 10 \<le> normalized then CRITICAL
      else if 75 / 100 \<le> normalized then HIGH
      else if 6 / 10 \<le> normalized then MEDIUM
      else LOW)"

text \<open>\<^verbatim>\<open>AnomalyDetector._calculate_confidence\<close>.\<close>

definition detection_confidence :: "real \<Rightarrow> real \<Rightarrow> real" where
  "detection_confidence isolation_score type_score =
     (let if_confidence = 1 / (1 + exp (isolation_score * 3));
          type_confidence = (if 0 < type_score then min (type_score / 5) 1 else 1 / 2)
      in np_clip (7 / 10 * if_confidence + 3 / 10 * type_confidence) 0 1)"

definition baseline_mean :: "AnomalyDetector \<Rightarrow> string \<Rightarrow> real" where
  "baseline_mean d k = (case map_of (baselines d) k of None \<Rightarrow> 0 | Some b \<Rightarrow> b_mean b)"

definition build_explanation ::
  "AnomalyDetector \<Rightarrow> TrafficMetrics \<Rightarrow> bool \<Rightarrow> AnomalyType option \<Rightarrow> py_text" where
  "build_explanation d m anomalous atype =
     (if \<not> anomalous then [Lit ''Traffic patterns are within normal parameters.'']
      else
        (case atype of
           None \<Rightarrow> [Lit ''Anomaly detected in traffic patterns'']
         | Some TRAFFIC_SPIKE \<Rightarrow>
             [Lit ''Detected traffic spike: '', Fmt_f1 (requests_per_second m),
              Lit '' req/s (baseline: '', Fmt_f1 (baseline_mean d ''requests_per_second''),
              Lit '' req/s)'']
         | Some TRAFFIC_DROP \<Rightarrow>
             [Lit ''Detected unusual traffic drop: '', Fmt_f1 (requests_per_second m),
              Lit '' req/s (baseline: '', Fmt_f1 (baseline_mean d ''requests_per_second''),
              Lit '' req/s)'']
         | Some LATENCY_SPIKE \<Rightarrow>
             [Lit ''Detected latency spike: avg='', Fmt_f1 (m_avg_latency_ms m),
              Lit ''ms, p95='', Fmt_f1 (p95_latency_ms m),
              Lit ''ms (baseline avg: '', Fmt_f1 (baseline_mean d ''avg_latency_ms''),
              Lit ''ms)'']
         | Some ERROR_RATE_SPIKE \<Rightarrow>
             [Lit ''Detected elevated error rate: '', Fmt_pct2 (m_error_rate m),
              Lit '' (baseline: '', Fmt_pct2 (baseline_mean d ''error_rate''), Lit '')'']
         | Some PATTERN_ANOMALY \<Rightarrow>
             [Lit ''Detected unusual traffic pattern that doesn't match normal behavior'']
         | Some MULTI_DIMENSIONAL \<Rightarrow>
             [Lit ''Detected anomalies across multiple metrics simultaneously'']))"

text \<open>
  \<^verbatim>\<open>detect\<close> on a \<^verbatim>\<open>TrafficMetrics\<close> sample (the tracker passes it one). The detector
  is not changed. A scaler or forest that was never fitted raises scikit-learn's
  \<^verbatim>\<open>NotFittedError\<close> when used.
\<close>

definition detect :: "AnomalyDetector \<Rightarrow> TrafficMetrics \<Rightarrow> py_error + AnomalyResult" where
  "detect d m =
     (if \<not> is_trained d
      then Inl (RuntimeError ''Model must be trained before detection. Call train() first.'')
      else
        (case scaler d of
           None \<Rightarrow> Inl NotFittedError
         | Some sc \<Rightarrow>
             (case model d of
                None \<Rightarrow> Inl NotFittedError
              | Some f \<Rightarrow>
                  (let X = to_feature_array m;
                       X_scaled = sc X;
                       raw_score = decision_function f X_scaled;
                       prediction = predict f X_scaled;
                       normalized = normalize_score raw_score;
                       anomalous = (prediction = - 1);
                       ty = identify_anomaly_type d m;
                       sev = (if anomalous then Some (determine_severity normalized) else None);
                       conf = detection_confidence raw_score (snd ty);
                       expl = build_explanation d m anomalous (fst ty)
                   in Inr \<lparr>is_anomaly = anomalous,
                           score = raw_score,
                           normalized_score = normalized,
                           anomaly_type = (if anomalous then fst ty else None),
                           severity = sev,
                           confidence = conf,
                           features = zip FEATURE_NAMES X,
                           explanation = expl,
                           res_timestamp = timestamp m\<rparr>))))"

definition detect_batch ::
  "AnomalyDetector \<Rightarrow> TrafficMetrics list \<Rightarrow> py_error + AnomalyResult list" where
  "detect_batch d ms = collect (map (detect d) ms)"

section \<open>Real-time tracker\<close>

record RealTimeAnomalyDetector =
  detector :: AnomalyDetector
  window_size :: int
  persistence_threshold :: int
  window :: "TrafficMetrics list"
  anomaly_streak :: int
  last_results :: "AnomalyResult list"


text \<open>\<^verbatim>\<open>xs.append(x)\<close> followed by \<^verbatim>\<open>if len(xs) > n: xs.pop(0)\<close>.\<close>

definition push_bounded :: "int \<Rightarrow> 'a list \<Rightarrow> 'a \<Rightarrow> 'a list" where
  "push_bounded n xs x = (let ys = xs @ [x] in if n < int (length ys) then tl ys else ys)"



definition reset :: "RealTimeAnomalyDetector \<Rightarrow> RealTimeAnomalyDetector" where
  "reset t = t\<lparr>window := [], anomaly_streak := 0, last_results := []\<rparr>"


section \<open>Auxiliary definitions and example inputs\<close>

text \<open>The strategy multiplier \<^verbatim>\<open>recommend\<close> applies: the table entry, or the adaptive one.\<close>

definition strategy_multiplier_of :: "EndpointProfile \<Rightarrow> OptimizationStrategy \<Rightarrow> real" where
  "strategy_multiplier_of p s = (if s = ADAPTIVE then calculate_adaptive_multiplier p else STRATEGY_MULTIPLIERS s)"

text \<open>
  A small traffic frame with every column: \<open>n\<close> requests to \<^verbatim>\<open>/a\<close> one second apart,
  all within one minute when \<open>n \<le> 60\<close>.
\<close>

definition example_columns :: frame_columns where
  "example_columns =
     \<lparr>has_timestamp = True, has_response_time_ms = True, has_status_code = True,
      has_user_id = True, has_ip_address = True, has_method = True\<rparr>"

definition example_request :: "int \<Rightarrow> request" where
  "example_request t =
     \<lparr>req_endpoint = ''/a'', req_timestamp = t, req_response_time_ms = 20,
      req_status_code = 200, req_user_id = ''u1'', req_ip_address = ''10.0.0.1'',
      req_method = ''GET''\<rparr>"

definition example_frame :: "nat \<Rightarrow> request list" where
  "example_frame n = map (\<lambda>i. example_request (int i)) [0..<n]"

definition example_optimizer :: "nat \<Rightarrow> RateLimitOptimizer" where
  "example_optimizer n =
     analyze_traffic (RateLimitOptimizer_init BALANCED 20 None) example_columns (example_frame n)"

definition example_profile :: "nat \<Rightarrow> EndpointProfile" where
  "example_profile n = build_endpoint_profile example_columns ''/a'' (example_frame n)"

text \<open>An optimizer constructed with a tier table of its own, free above basic.\<close>

definition inverted_tier_configs :: "TierLevel \<rightharpoonup> TierConfiguration" where
  "inverted_tier_configs t =
     (case t of
        FREE \<Rightarrow> Some (mk_tier FREE 1000 (12 / 10) 2000 10)
      | BASIC \<Rightarrow> Some (mk_tier BASIC 100 (15 / 10) 300 30)
      | STANDARD \<Rightarrow> Some (mk_tier STANDARD 300 (15 / 10) 1000 100)
      | PREMIUM \<Rightarrow> Some (mk_tier PREMIUM 1000 2 5000 300)
      | ENTERPRISE \<Rightarrow> Some (mk_tier ENTERPRISE 5000 (25 / 10) 50000 1000))"

definition inverted_optimizer :: RateLimitOptimizer where
  "inverted_optimizer = RateLimitOptimizer_init BALANCED 20 (Some inverted_tier_configs)"

text \<open>The tier table has all five tiers, with base limits that do not decrease.\<close>

definition tier_bases_ordered :: "(TierLevel \<rightharpoonup> TierConfiguration) \<Rightarrow> bool" where
  "tier_bases_ordered tc =
     (case (tc FREE, tc BASIC, tc STANDARD, tc PREMIUM, tc ENTERPRISE) of
        (Some cf, Some cb, Some cs, Some cp, Some ce) \<Rightarrow>
          base_limit cf \<le> base_limit cb \<and> base_limit cb \<le> base_limit cs
          \<and> base_limit cs \<le> base_limit cp \<and> base_limit cp \<le> base_limit ce
      | _ \<Rightarrow> False)"

text \<open>The limit and the burst of a recommendation, when the call returned one.\<close>

definition limit_of :: "py_error + RateLimitRecommendation \<Rightarrow> int option" where
  "limit_of x = (case x of Inl _ \<Rightarrow> None | Inr r \<Rightarrow> Some (recommended_limit r))"

definition burst_of :: "py_error + RateLimitRecommendation \<Rightarrow> int option" where
  "burst_of x = (case x of Inl _ \<Rightarrow> None | Inr r \<Rightarrow> Some (recommended_burst r))"

text \<open>
  A stand-in for scikit-learn, used in the examples. The scaler is the standard scaler:
  each feature minus its column mean, divided by the column's standard deviation (by 1 when
  that is 0). The forest follows the isolation forest's documented calibration around a
  simple score: the score of a sample is minus the size of its first scaled feature, the
  offset is the contamination percentile of the training scores, the decision function
  is the score minus the offset, and \<^verbatim>\<open>predict\<close> is \<open>-1\<close> exactly where the decision
  function is negative. A contamination outside \<open>(0, 0.5]\<close> is rejected.
\<close>

definition standard_scaler :: "real list list \<Rightarrow> real list \<Rightarrow> real list" where
  "standard_scaler X x =
     map (\<lambda>j. (let col = map (\<lambda>r. r ! j) X; sd = np_std col
                in (x ! j - mean col) / (if sd = 0 then 1 else sd)))
         [0..<length x]"

definition offset_forest :: "(real list \<Rightarrow> real) \<Rightarrow> real \<Rightarrow> real list list \<Rightarrow> forest" where
  "offset_forest score_samples c X =
     (let offset = percentile (map score_samples X) (100 * c)
      in \<lparr>decision_function = (\<lambda>x. score_samples x - offset),
          predict = (\<lambda>x. if score_samples x - offset < 0 then - 1 else 1)\<rparr>)"

definition example_sklearn :: sklearn where
  "example_sklearn =
     \<lparr>fit_scaler = standard_scaler,
      fit_forest = (\<lambda>c n r X. if 0 < c \<and> c \<le> 1 / 2
                                then Inr (offset_forest (\<lambda>x. - \<bar>hd x\<bar>) c X)
                                else Inl (ValueError ''InvalidParameterError''))\<rparr>"

text \<open>
  Ten training rows that differ in the request rate only (30, 40, six times 50, 60, 70
  requests per second: mean 50, standard deviation 10), the detector trained on them with
  the default parameters, and a sample with a given request rate.
\<close>

definition example_row :: "real \<Rightarrow> frame_row" where
  "example_row rps = (Num rps, Num 30, Num 60, Num 90, Num (2 / 100))"

definition example_training :: training_data where
  "example_training = DataFrame (map example_row [30, 40, 50, 50, 50, 50, 50, 50, 60, 70])"

definition example_detector :: AnomalyDetector where
  "example_detector =
     snd (train example_sklearn 0 (AnomalyDetector_init (1 / 10) 100 42 2) example_training)"

definition example_metrics :: "real \<Rightarrow> TrafficMetrics" where
  "example_metrics rps =
     \<lparr>timestamp = 0, requests_per_second = rps, m_avg_latency_ms = 30, p95_latency_ms = 60,
      p99_latency_ms = 90, m_error_rate = 2 / 100, status_2xx = 0, status_4xx = 0,
      status_5xx = 0, m_total_requests = 0\<rparr>"

text \<open>The two-row frame of the repository's test of insufficient training data.\<close>

definition small_training :: training_data where
  "small_training =
     DataFrame [(Num 50, Num 30, Num 60, Num 100, Num (1 / 100)),
                (Num 60, Num 40, Num 80, Num 120, Num (2 / 100))]"

text \<open>What a call returned, when it returned.\<close>

definition returned :: "py_error + 'a \<Rightarrow> 'a option" where
  "returned x = (case x of Inl _ \<Rightarrow> None | Inr v \<Rightarrow> Some v)"

text \<open>The forest that the stand-in fits from the example training rows.\<close>

definition example_forest :: forest where
  "example_forest = \<lparr>decision_function = (\<lambda>x. 2 - \<bar>hd x\<bar>),
                      predict = (\<lambda>x. if 2 - \<bar>hd x\<bar> < 0 then - 1 else 1)\<rparr>"

text \<open>
  Ten rows of which nine are valid: the missing request rate of one row is filled with the
  column median, the row with an infinite latency is dropped.
\<close>

definition gappy_training :: training_data where
  "gappy_training =
     DataFrame (map example_row [30, 40, 50, 50, 50, 50, 60, 70]
                @ [(NaN, Num 30, Num 60, Num 90, Num (2 / 100)),
                   (Num 50, PosInf, Num 60, Num 90, Num (2 / 100))])"


text \<open>The result of the example detector on a sample with a given request rate.\<close>

definition example_result :: "real \<Rightarrow> AnomalyResult" where
  "example_result v = projr (detect example_detector (example_metrics v))"








section \<open>Properties of the rounding policy\<close>

lemma py_round_of_int: "py_round (of_int k) = k"
  by (simp add: py_round_def)

lemma py_round_near: "\<bar>of_int (py_round x) - x\<bar> \<le> 1 / 2"
  unfolding py_round_def Let_def by (auto simp: abs_le_iff)

lemma py_round_bounds: "\<lfloor>x\<rfloor> \<le> py_round x \<and> py_round x \<le> \<lfloor>x\<rfloor> + 1"
  by (simp add: py_round_def Let_def)

lemma py_round_mono: "x \<le> y \<Longrightarrow> py_round x \<le> py_round y"
proof -
  assume xy: "x \<le> y"
  have fl: "\<lfloor>x\<rfloor> \<le> \<lfloor>y\<rfloor>" using xy by (rule floor_mono)
  show ?thesis
  proof (cases "\<lfloor>x\<rfloor> = \<lfloor>y\<rfloor>")
    case True
    then show ?thesis using xy by (auto simp: py_round_def Let_def)
  next
    case False
    then have "\<lfloor>x\<rfloor> + 1 \<le> \<lfloor>y\<rfloor>" using fl by linarith
    then show ?thesis using py_round_bounds[of x] py_round_bounds[of y] by linarith
  qed
qed

lemma round_step_mono: "0 < s \<Longrightarrow> x \<le> y \<Longrightarrow> round_step s x \<le> round_step s y"
  unfolding round_step_def
  by (intro mult_right_mono py_round_mono divide_right_mono) simp_all

lemma round_step_lower:
  assumes "0 < s" "of_int (k * s) \<le> v"
  shows "k * s \<le> round_step s v"
proof -
  have "round_step s (of_int (k * s)) \<le> round_step s v"
    using assms by (intro round_step_mono)
  moreover have "round_step s (of_int (k * s)) = k * s"
    using assms(1) by (simp add: round_step_def py_round_of_int)
  ultimately show ?thesis by simp
qed

lemma round_step_upper:
  assumes "0 < s" "v \<le> of_int (k * s)"
  shows "round_step s v \<le> k * s"
proof -
  have "round_step s v \<le> round_step s (of_int (k * s))"
    using assms by (intro round_step_mono)
  moreover have "round_step s (of_int (k * s)) = k * s"
    using assms(1) by (simp add: round_step_def py_round_of_int)
  ultimately show ?thesis by simp
qed

lemma round_step_nearest: "0 < s \<Longrightarrow> nearest_multiple s v (round_step s v)"
proof -
  assume s: "0 < s"
  have "\<bar>of_int (py_round (v / of_int s)) - v / of_int s\<bar> \<le> 1 / 2"
    by (rule py_round_near)
  then have "\<bar>of_int (py_round (v / of_int s)) - v / of_int s\<bar> * of_int s \<le> 1 / 2 * of_int s"
    using s by (intro mult_right_mono) simp_all
  moreover have "\<bar>of_int (py_round (v / of_int s)) - v / of_int s\<bar> * of_int s
      = \<bar>of_int (py_round (v / of_int s) * s) - v\<bar>"
  proof -
    have "\<bar>of_int (py_round (v / of_int s)) - v / of_int s\<bar> * of_int s
        = \<bar>(of_int (py_round (v / of_int s)) - v / of_int s) * of_int s\<bar>"
      using s by (simp add: abs_mult)
    also have "(of_int (py_round (v / of_int s)) - v / of_int s) * of_int s
        = of_int (py_round (v / of_int s) * s) - v"
      using s by (simp add: algebra_simps)
    finally show ?thesis .
  qed
  ultimately show ?thesis
    by (simp add: nearest_multiple_def round_step_def)
qed

lemma nearest_multiple_closest:
  assumes s: "0 < s"
  shows "nearest_multiple s v r \<longleftrightarrow>
         s dvd r \<and> (\<forall>m. s dvd m \<longrightarrow> \<bar>of_int r - v\<bar> \<le> \<bar>of_int m - v\<bar>)"
proof
  assume n: "nearest_multiple s v r"
  then have d: "s dvd r" and h: "2 * \<bar>of_int r - v\<bar> \<le> of_int s"
    by (simp_all add: nearest_multiple_def)
  have "\<bar>of_int r - v\<bar> \<le> \<bar>of_int m - v\<bar>" if m: "s dvd m" for m
  proof (cases "m = r")
    case True then show ?thesis by simp
  next
    case False
    from d m have "s dvd (m - r)" by (rule dvd_diff[rotated])
    then obtain k where k: "m - r = s * k" by (auto simp: dvd_def)
    with False have "k \<noteq> 0" by auto
    then have "1 \<le> \<bar>k\<bar>" by linarith
    then have "s * 1 \<le> s * \<bar>k\<bar>" using s by (intro mult_left_mono) simp_all
    then have "s \<le> \<bar>m - r\<bar>" using k s by (simp add: abs_mult)
    then have "(of_int s :: real) \<le> \<bar>of_int m - of_int r\<bar>"
      by (metis of_int_abs of_int_diff of_int_le_iff)
    then show ?thesis using h by (simp add: abs_if split: if_splits)
  qed
  with d show "s dvd r \<and> (\<forall>m. s dvd m \<longrightarrow> \<bar>of_int r - v\<bar> \<le> \<bar>of_int m - v\<bar>)"
    by blast
next
  assume a: "s dvd r \<and> (\<forall>m. s dvd m \<longrightarrow> \<bar>of_int r - v\<bar> \<le> \<bar>of_int m - v\<bar>)"
  then have d: "s dvd r" by simp
  then have "s dvd (r + s)" "s dvd (r - s)" by simp_all
  with a have "\<bar>of_int r - v\<bar> \<le> \<bar>of_int (r + s) - v\<bar>" "\<bar>of_int r - v\<bar> \<le> \<bar>of_int (r - s) - v\<bar>"
    by blast+
  moreover have "(0::real) < of_int s" using s by simp
  ultimately have "2 * \<bar>of_int r - v\<bar> \<le> of_int s"
    unfolding of_int_add of_int_diff by (simp add: abs_if split: if_splits)
  with d show "nearest_multiple s v r" by (simp add: nearest_multiple_def)
qed


lemma rtn_round_step:
  "round_to_nice_number v =
     (if v < 10 then max 1 (py_round v)
      else if v < 50 then round_step 5 v
      else if v < 100 then round_step 10 v
      else if v < 500 then round_step 25 v
      else if v < 1000 then round_step 50 v
      else if v < 5000 then round_step 100 v
      else round_step 500 v)"
  by (simp add: round_to_nice_number_def round_step_def)

lemma rtn_band0: "v < 10 \<Longrightarrow> 1 \<le> round_to_nice_number v \<and> round_to_nice_number v \<le> 10"
proof -
  assume "v < 10"
  then have "py_round v \<le> py_round 10" by (intro py_round_mono) simp
  moreover have "py_round 10 = 10" using py_round_of_int[of 10] by simp
  ultimately show ?thesis using \<open>v < 10\<close> by (simp add: rtn_round_step)
qed

lemma rtn_band1: "10 \<le> v \<Longrightarrow> v < 50 \<Longrightarrow> 10 \<le> round_to_nice_number v \<and> round_to_nice_number v \<le> 50"
  using round_step_lower[of 5 2 v] round_step_upper[of 5 v 10] by (simp add: rtn_round_step)

lemma rtn_band2: "50 \<le> v \<Longrightarrow> v < 100 \<Longrightarrow> 50 \<le> round_to_nice_number v \<and> round_to_nice_number v \<le> 100"
  using round_step_lower[of 10 5 v] round_step_upper[of 10 v 10] by (simp add: rtn_round_step)

lemma rtn_band3: "100 \<le> v \<Longrightarrow> v < 500 \<Longrightarrow> 100 \<le> round_to_nice_number v \<and> round_to_nice_number v \<le> 500"
  using round_step_lower[of 25 4 v] round_step_upper[of 25 v 20] by (simp add: rtn_round_step)

lemma rtn_band4: "500 \<le> v \<Longrightarrow> v < 1000 \<Longrightarrow> 500 \<le> round_to_nice_number v \<and> round_to_nice_number v \<le> 1000"
  using round_step_lower[of 50 10 v] round_step_upper[of 50 v 20] by (simp add: rtn_round_step)

lemma rtn_band5: "1000 \<le> v \<Longrightarrow> v < 5000 \<Longrightarrow> 1000 \<le> round_to_nice_number v \<and> round_to_nice_number v \<le> 5000"
  using round_step_lower[of 100 10 v] round_step_upper[of 100 v 50] by (simp add: rtn_round_step)

lemma rtn_band6: "5000 \<le> v \<Longrightarrow> 5000 \<le> round_to_nice_number v"
  using round_step_lower[of 500 10 v] by (simp add: rtn_round_step)

lemma rtn_same_band:
  assumes "x \<le> y"
    and "(x < 10 \<longleftrightarrow> y < 10)" "(x < 50 \<longleftrightarrow> y < 50)" "(x < 100 \<longleftrightarrow> y < 100)"
        "(x < 500 \<longleftrightarrow> y < 500)" "(x < 1000 \<longleftrightarrow> y < 1000)" "(x < 5000 \<longleftrightarrow> y < 5000)"
  shows "round_to_nice_number x \<le> round_to_nice_number y"
proof -
  have m: "max 1 (py_round x) \<le> max 1 (py_round y)"
    using py_round_mono[OF assms(1)] by linarith
  have s: "round_step 5 x \<le> round_step 5 y" "round_step 10 x \<le> round_step 10 y"
    "round_step 25 x \<le> round_step 25 y" "round_step 50 x \<le> round_step 50 y"
    "round_step 100 x \<le> round_step 100 y" "round_step 500 x \<le> round_step 500 y"
    using assms(1) by (simp_all add: round_step_mono)
  show ?thesis unfolding rtn_round_step using m s assms(2-) by presburger
qed

lemma rtn_below:
  "v < 10 \<Longrightarrow> round_to_nice_number v \<le> 10"
  "v < 50 \<Longrightarrow> round_to_nice_number v \<le> 50"
  "v < 100 \<Longrightarrow> round_to_nice_number v \<le> 100"
  "v < 500 \<Longrightarrow> round_to_nice_number v \<le> 500"
  "v < 1000 \<Longrightarrow> round_to_nice_number v \<le> 1000"
  "v < 5000 \<Longrightarrow> round_to_nice_number v \<le> 5000"
proof -
  show b0: "v < 10 \<Longrightarrow> round_to_nice_number v \<le> 10"
    using rtn_band0[of v] by simp
  show b1: "v < 50 \<Longrightarrow> round_to_nice_number v \<le> 50"
    using b0 rtn_band1[of v] by (cases "v < 10") simp_all
  show b2: "v < 100 \<Longrightarrow> round_to_nice_number v \<le> 100"
    using b1 rtn_band2[of v] by (cases "v < 50") simp_all
  show b3: "v < 500 \<Longrightarrow> round_to_nice_number v \<le> 500"
    using b2 rtn_band3[of v] by (cases "v < 100") simp_all
  show b4: "v < 1000 \<Longrightarrow> round_to_nice_number v \<le> 1000"
    using b3 rtn_band4[of v] by (cases "v < 500") simp_all
  show "v < 5000 \<Longrightarrow> round_to_nice_number v \<le> 5000"
    using b4 rtn_band5[of v] by (cases "v < 1000") simp_all
qed

lemma rtn_above:
  "10 \<le> v \<Longrightarrow> 10 \<le> round_to_nice_number v"
  "50 \<le> v \<Longrightarrow> 50 \<le> round_to_nice_number v"
  "100 \<le> v \<Longrightarrow> 100 \<le> round_to_nice_number v"
  "500 \<le> v \<Longrightarrow> 500 \<le> round_to_nice_number v"
  "1000 \<le> v \<Longrightarrow> 1000 \<le> round_to_nice_number v"
  "5000 \<le> v \<Longrightarrow> 5000 \<le> round_to_nice_number v"
proof -
  show a6: "5000 \<le> v \<Longrightarrow> 5000 \<le> round_to_nice_number v"
    by (rule rtn_band6)
  show a5: "1000 \<le> v \<Longrightarrow> 1000 \<le> round_to_nice_number v"
    using a6 rtn_band5[of v] by (cases "v < 5000") simp_all
  show a4: "500 \<le> v \<Longrightarrow> 500 \<le> round_to_nice_number v"
    using a5 rtn_band4[of v] by (cases "v < 1000") simp_all
  show a3: "100 \<le> v \<Longrightarrow> 100 \<le> round_to_nice_number v"
    using a4 rtn_band3[of v] by (cases "v < 500") simp_all
  show a2: "50 \<le> v \<Longrightarrow> 50 \<le> round_to_nice_number v"
    using a3 rtn_band2[of v] by (cases "v < 100") simp_all
  show "10 \<le> v \<Longrightarrow> 10 \<le> round_to_nice_number v"
    using a2 rtn_band1[of v] by (cases "v < 50") simp_all
qed

lemma rtn_mono:
  assumes "x \<le> y"
  shows "round_to_nice_number x \<le> round_to_nice_number y"
proof -
  consider "x < 10" "10 \<le> y" | "x < 50" "50 \<le> y" | "x < 100" "100 \<le> y"
    | "x < 500" "500 \<le> y" | "x < 1000" "1000 \<le> y" | "x < 5000" "5000 \<le> y"
    | "(x < 10 \<longleftrightarrow> y < 10)" "(x < 50 \<longleftrightarrow> y < 50)" "(x < 100 \<longleftrightarrow> y < 100)"
      "(x < 500 \<longleftrightarrow> y < 500)" "(x < 1000 \<longleftrightarrow> y < 1000)" "(x < 5000 \<longleftrightarrow> y < 5000)"
    using assms by linarith
  then show ?thesis
  proof cases
    case 1 then show ?thesis using rtn_below(1)[of x] rtn_above(1)[of y] by linarith
  next
    case 2 then show ?thesis using rtn_below(2)[of x] rtn_above(2)[of y] by linarith
  next
    case 3 then show ?thesis using rtn_below(3)[of x] rtn_above(3)[of y] by linarith
  next
    case 4 then show ?thesis using rtn_below(4)[of x] rtn_above(4)[of y] by linarith
  next
    case 5 then show ?thesis using rtn_below(5)[of x] rtn_above(5)[of y] by linarith
  next
    case 6 then show ?thesis using rtn_below(6)[of x] rtn_above(6)[of y] by linarith
  next
    case 7 with assms show ?thesis by (rule rtn_same_band)
  qed
qed

section \<open>Properties of the limit arithmetic\<close>

lemma py_int_mono: "x \<le> y \<Longrightarrow> py_int x \<le> py_int y"
proof -
  assume xy: "x \<le> y"
  consider "0 \<le> x" | "x < 0" "y < 0" | "x < 0" "0 \<le> y" by linarith
  then show ?thesis
  proof cases
    case 1 then show ?thesis using xy by (simp add: py_int_def floor_mono)
  next
    case 2 then show ?thesis using xy by (simp add: py_int_def ceiling_mono)
  next
    case 3
    then have "\<lceil>x\<rceil> \<le> 0" "0 \<le> \<lfloor>y\<rfloor>" by (simp_all add: ceiling_le_zero)
    moreover from 3 have "py_int x = \<lceil>x\<rceil>" "py_int y = \<lfloor>y\<rfloor>"
      by (simp_all add: py_int_def)
    ultimately show ?thesis by linarith
  qed
qed

lemma py_int_of_int: "py_int (of_int k) = k"
  by (simp add: py_int_def)

lemma py_int_nonneg: "0 \<le> x \<Longrightarrow> 0 \<le> py_int x"
  by (simp add: py_int_def)

lemma calculate_base_limit_ge: "10 \<le> calculate_base_limit opt p"
  unfolding calculate_base_limit_def Let_def by (rule rtn_above(1)) simp

lemma tier_multiplier_pos: "0 < get_tier_multiplier t"
  by (simp add: get_tier_multiplier_def Let_def)

lemma tier_multiplier_values:
  "get_tier_multiplier ''free'' = 1 / 2"
  "get_tier_multiplier ''basic'' = 3 / 4"
  "get_tier_multiplier ''standard'' = 3 / 2"
  "get_tier_multiplier ''premium'' = 5 / 2"
  "get_tier_multiplier ''enterprise'' = 5"
  by (simp_all add: get_tier_multiplier_def lower_def lower_char_def)

lemma tier_mapping_values:
  "tier_mapping ''free'' = FREE"
  "tier_mapping ''basic'' = BASIC"
  "tier_mapping ''standard'' = STANDARD"
  "tier_mapping ''premium'' = PREMIUM"
  "tier_mapping ''enterprise'' = ENTERPRISE"
  by (simp_all add: tier_mapping_def lower_def lower_char_def)

lemma adaptive_multiplier_nonneg: "0 \<le> calculate_adaptive_multiplier p"
proof -
  have "0 \<le> max (1 / 2) (1 - safe_value (time_of_day_variance p) 0 * (3 / 10))"
       "0 \<le> max (1 / 2) (1 - safe_value (error_rate p) 0 * 2)"
       "0 \<le> (if safe_value (avg_latency_ms p) 0 < 100 then 1 else 8 / 10 :: real)"
    by simp_all
  then show ?thesis
    unfolding calculate_adaptive_multiplier_def Let_def by (intro mult_nonneg_nonneg)
qed

lemma strategy_multiplier_nonneg: "0 \<le> strategy_multiplier_of p s"
  using adaptive_multiplier_nonneg[of p]
  by (cases s) (simp_all add: strategy_multiplier_of_def STRATEGY_MULTIPLIERS_def)

lemma profiled_limit_alt:
  "profiled_limit opt p t s =
     py_int (of_int (py_int (of_int (calculate_base_limit opt p) * get_tier_multiplier t))
             * strategy_multiplier_of p s)"
  by (simp add: profiled_limit_def strategy_multiplier_of_def Let_def)

lemma tier_adjusted_nonneg:
  "0 \<le> py_int (of_int (calculate_base_limit opt p) * get_tier_multiplier t)"
proof -
  have "(0::real) \<le> of_int (calculate_base_limit opt p)"
    using calculate_base_limit_ge[of opt p] by simp
  then have "0 \<le> of_int (calculate_base_limit opt p) * get_tier_multiplier t"
    using tier_multiplier_pos[of t] by (intro mult_nonneg_nonneg) simp_all
  then show ?thesis by (rule py_int_nonneg)
qed

lemma profiled_limit_strategy_mono:
  "profiled_limit opt p t CONSERVATIVE \<le> profiled_limit opt p t BALANCED"
  "profiled_limit opt p t BALANCED \<le> profiled_limit opt p t PERMISSIVE"
proof -
  let ?T = "py_int (of_int (calculate_base_limit opt p) * get_tier_multiplier t)"
  have T: "(0::real) \<le> of_int ?T" using tier_adjusted_nonneg[of opt p t] by simp
  have "of_int ?T * (7 / 10) \<le> (of_int ?T * 1 :: real)" using T by simp
  then show "profiled_limit opt p t CONSERVATIVE \<le> profiled_limit opt p t BALANCED"
    unfolding profiled_limit_alt
    by (simp add: strategy_multiplier_of_def STRATEGY_MULTIPLIERS_def py_int_mono)
  have "of_int ?T * 1 \<le> (of_int ?T * (13 / 10) :: real)" using T by simp
  then show "profiled_limit opt p t BALANCED \<le> profiled_limit opt p t PERMISSIVE"
    unfolding profiled_limit_alt
    by (simp add: strategy_multiplier_of_def STRATEGY_MULTIPLIERS_def py_int_mono)
qed

lemma profiled_limit_tier_mono:
  assumes "get_tier_multiplier t1 \<le> get_tier_multiplier t2"
  shows "profiled_limit opt p t1 s \<le> profiled_limit opt p t2 s"
proof -
  have b: "(0::real) \<le> of_int (calculate_base_limit opt p)"
    using calculate_base_limit_ge[of opt p] by simp
  have "of_int (calculate_base_limit opt p) * get_tier_multiplier t1
      \<le> of_int (calculate_base_limit opt p) * get_tier_multiplier t2"
    using assms b by (rule mult_left_mono)
  then have "py_int (of_int (calculate_base_limit opt p) * get_tier_multiplier t1)
      \<le> py_int (of_int (calculate_base_limit opt p) * get_tier_multiplier t2)"
    by (rule py_int_mono)
  then have "(of_int (py_int (of_int (calculate_base_limit opt p) * get_tier_multiplier t1)) :: real)
      \<le> of_int (py_int (of_int (calculate_base_limit opt p) * get_tier_multiplier t2))"
    by simp
  then have "of_int (py_int (of_int (calculate_base_limit opt p) * get_tier_multiplier t1))
        * strategy_multiplier_of p s
      \<le> of_int (py_int (of_int (calculate_base_limit opt p) * get_tier_multiplier t2))
        * strategy_multiplier_of p s"
    using strategy_multiplier_nonneg[of p s] by (rule mult_right_mono)
  then show ?thesis unfolding profiled_limit_alt by (rule py_int_mono)
qed

lemma recommend_profiled:
  "map_of (endpoint_profiles opt) e = Some p \<Longrightarrow>
   \<exists>r. recommend opt e t cur (Some s) = Inr r \<and> recommended_limit r = profiled_limit opt p t s
        \<and> recommended_burst r = calculate_burst_size p (profiled_limit opt p t s)"
  by (simp add: recommend_def Let_def)

lemma limit_of_profiled:
  "map_of (endpoint_profiles opt) e = Some p \<Longrightarrow>
   limit_of (recommend opt e t cur sa)
     = Some (profiled_limit opt p t (case sa of None \<Rightarrow> strategy opt | Some s \<Rightarrow> s))"
  by (simp add: recommend_def limit_of_def Let_def)

lemma burst_of_profiled:
  "map_of (endpoint_profiles opt) e = Some p \<Longrightarrow>
   burst_of (recommend opt e t cur sa)
     = Some (calculate_burst_size p
              (profiled_limit opt p t (case sa of None \<Rightarrow> strategy opt | Some s \<Rightarrow> s)))"
  by (simp add: recommend_def burst_of_def Let_def)

lemma limit_of_default:
  "map_of (endpoint_profiles opt) e = None \<Longrightarrow> tier_configs opt (tier_mapping t) = Some c \<Longrightarrow>
   limit_of (recommend opt e t cur sa)
     = Some (py_int (of_int (base_limit c)
               * STRATEGY_MULTIPLIERS (case sa of None \<Rightarrow> strategy opt | Some s \<Rightarrow> s)))"
  by (simp add: recommend_def generate_default_recommendation_def limit_of_def Let_def)

lemma strategy_table_nonneg: "0 \<le> STRATEGY_MULTIPLIERS s"
  by (cases s) (simp_all add: STRATEGY_MULTIPLIERS_def)

lemma default_limit_mono:
  "b1 \<le> b2 \<Longrightarrow> py_int (of_int b1 * STRATEGY_MULTIPLIERS s) \<le> py_int (of_int b2 * STRATEGY_MULTIPLIERS s)"
  by (intro py_int_mono mult_right_mono strategy_table_nonneg) simp

lemma example_frame_5: "example_frame 5 = map example_request [0, 1, 2, 3, 4]"
  by (simp add: example_frame_def upt_rec)

lemma example_profiles_5:
  "endpoint_profiles (example_optimizer 5) = [(''/a'', example_profile 5)]"
  by (simp add: example_optimizer_def analyze_traffic_def example_profile_def example_frame_5
       example_request_def)

lemma default_ordered: "tier_bases_ordered DEFAULT_TIER_CONFIGS"
  by (simp add: tier_bases_ordered_def DEFAULT_TIER_CONFIGS_def mk_tier_def)

section \<open>Properties of the profiler and of the burst arithmetic\<close>

lemma fold_max_mem: "fold max ys (a::real) \<in> insert a (set ys)"
  by (induction ys arbitrary: a) (auto simp: max_def)

lemma list_max_mem: "xs \<noteq> [] \<Longrightarrow> list_max xs \<in> set xs"
  using fold_max_mem[of "tl xs" "hd xs"] by (cases xs) (auto simp: list_max_def)

lemma resample_size_nonneg: "x \<in> set (resample_size w ts) \<Longrightarrow> 0 \<le> x"
  by (cases ts) (auto simp: resample_size_def Let_def)

lemma py_int_floor: "0 \<le> x \<Longrightarrow> py_int x = \<lfloor>x\<rfloor>"
  by (simp add: py_int_def)

lemma build_profile_peak:
  "\<exists>peak. peak_requests_per_minute (build_endpoint_profile cols e data) = Some peak \<and> 0 \<le> peak
     \<and> typical_burst_size (build_endpoint_profile cols e data) = max 1 \<lfloor>peak / 60 * 3\<rfloor>"
proof -
  define mc where "mc = (if has_timestamp cols then resample_size 60 (map req_timestamp data)
             else [real (length data)])"
  define peak where "peak = (if 0 < length mc then safe_float (Some (list_max mc)) else 0)"
  have nn: "\<forall>x \<in> set mc. 0 \<le> x"
    using resample_size_nonneg by (auto simp: mc_def)
  have p0: "0 \<le> peak"
  proof (cases "mc = []")
    case True then show ?thesis by (simp add: peak_def)
  next
    case False
    then have "list_max mc \<in> set mc" by (rule list_max_mem)
    with nn False show ?thesis by (auto simp: peak_def safe_float_def)
  qed
  have a: "peak_requests_per_minute (build_endpoint_profile cols e data) = Some peak"
    by (simp add: build_endpoint_profile_def Let_def peak_def mc_def)
  have b: "typical_burst_size (build_endpoint_profile cols e data) = typical_burst_of peak"
    by (simp add: build_endpoint_profile_def Let_def peak_def mc_def)
  have "0 \<le> peak / 60 * 3" using p0 by simp
  then have "typical_burst_of peak = max 1 \<lfloor>peak / 60 * 3\<rfloor>"
    by (simp add: typical_burst_of_def Let_def py_int_floor)
  with a b p0 show ?thesis by auto
qed

lemma example_profiles_31:
  "endpoint_profiles (example_optimizer 31) = [(''/a'', example_profile 31)]"
  by (simp add: example_optimizer_def analyze_traffic_def example_profile_def example_frame_def
       example_request_def upt_rec)

lemma example_profile_31:
  "peak_requests_per_minute (example_profile 31) = Some 31"
  "typical_burst_size (example_profile 31) = 1"
  by (simp_all add: example_profile_def build_endpoint_profile_def example_frame_def
      example_request_def example_columns_def resample_size_def Let_def upto_rec1 safe_float_def
      list_max_def typical_burst_of_def py_int_def upt_rec)

lemma burst_before_rounding_clamp:
  "burst_before_rounding p L = max (max 10 (L div 6)) (min (typical_burst_size p * 2) L)"
  by (simp add: burst_before_rounding_def safe_value_def py_int_of_int Let_def)

lemma burst_within_limit_from_ten:
  "10 \<le> L \<Longrightarrow> burst_before_rounding p L \<le> L"
  unfolding burst_before_rounding_clamp by simp

lemma burst_above_limit_below_ten:
  "L < 10 \<Longrightarrow> burst_before_rounding p L = 10"
  unfolding burst_before_rounding_clamp by simp

lemma example_profile_5:
  "p95_requests_per_minute (example_profile 5) = Some 5"
  "typical_burst_size (example_profile 5) = 1"
  by (simp_all add: example_profile_def build_endpoint_profile_def example_frame_5
      example_request_def example_columns_def resample_size_def Let_def upto_rec1 safe_float_def
      list_max_def typical_burst_of_def py_int_def percentile_def)

lemma example_limit_free: "profiled_limit (example_optimizer 5) (example_profile 5) ''free'' BALANCED = 5"
  by (simp add: profiled_limit_def calculate_base_limit_def example_profile_5 safe_value_def Let_def
      example_optimizer_def analyze_traffic_def RateLimitOptimizer_init_def
      round_to_nice_number_def py_round_def tier_multiplier_values STRATEGY_MULTIPLIERS_def py_int_def)

section \<open>Properties of the detector and of the tracker\<close>



lemma identify_anomaly_type_some: "\<exists>ty. fst (identify_anomaly_type d m) = Some ty"
  by (simp add: identify_anomaly_type_def Let_def split: list.splits)







lemma detect_normal:
  assumes "detect d m = Inr r" "\<not> is_anomaly r"
  shows "anomaly_type r = None \<and> severity r = None
         \<and> explanation r = [Lit ''Traffic patterns are within normal parameters.'']"
  using assms
  by (auto simp: detect_def Let_def build_explanation_def split: if_splits option.splits)

lemma train_insufficient:
  "length (clean_frame data) < 10 \<Longrightarrow>
   train env now d data
     = (Inl (ValueError ''Insufficient training data. Need at least 10 samples.''), d)"
  by (simp add: train_def Let_def)




lemma push_bounded_drop:
  "length xs \<le> N \<Longrightarrow> push_bounded (int N) xs x = drop (Suc (length xs) - N) (xs @ [x])"
  by (cases xs) (auto simp: push_bounded_def Let_def Suc_diff_le)


section \<open>The example detector, evaluated\<close>

lemma example_clean:
  "clean_frame example_training
     = map (\<lambda>v. [v, 30, 60, 90, 2 / 100]) [30, 40, 50, 50, 50, 50, 50, 50, 60, 70]"
  by (simp add: clean_frame_def example_training_def example_row_def to_rows_def row_cells_def
      fillna_def frame_columns_of_def replace_inf_def dropna_def num_of_def upt_rec)

lemma small_clean: "length (clean_frame small_training) = 2"
  by (simp add: clean_frame_def small_training_def to_rows_def row_cells_def
      fillna_def frame_columns_of_def replace_inf_def dropna_def num_of_def upt_rec)

lemma sqrt_100: "sqrt 100 = 10"
  by (rule real_sqrt_unique) simp_all

lemma example_scaled:
  "standard_scaler (clean_frame example_training) [v, a, b, c, e]
     = [(v - 50) / 10, a - 30, b - 60, c - 90, e - 1 / 50]"
  by (simp add: example_clean standard_scaler_def Let_def upt_rec mean_def np_std_def sqrt_100)

lemma example_scaled_frame:
  "map (standard_scaler (clean_frame example_training)) (clean_frame example_training)
     = map (\<lambda>z. [z, 0, 0, 0, 0]) [- 2, - 1, 0, 0, 0, 0, 0, 0, 1, 2]"
proof -
  have "map (standard_scaler (clean_frame example_training)) (clean_frame example_training)
      = map (\<lambda>v. standard_scaler (clean_frame example_training) [v, 30, 60, 90, 2 / 100])
            [30, 40, 50, 50, 50, 50, 50, 50, 60, 70]"
    by (subst (2) example_clean) (simp add: comp_def)
  also have "\<dots> = map (\<lambda>v. [(v - 50) / 10, 0, 0, 0, 0]) [30, 40, 50, 50, 50, 50, 50, 50, 60, 70]"
    by (simp add: example_scaled)
  also have "\<dots> = map (\<lambda>z. [z, 0, 0, 0, 0]) [- 2, - 1, 0, 0, 0, 0, 0, 0, 1, 2]"
    by simp
  finally show ?thesis .
qed

lemma example_offset:
  "percentile (map (\<lambda>x. - \<bar>hd x\<bar>) (map (\<lambda>z. [z, 0, 0, 0, 0]) [- 2, - 1, 0, 0, 0, 0, 0, 0, 1, 2 :: real]))
     10 = - 2"
  by (simp add: percentile_def Let_def)

lemma example_fit:
  "fit_forest example_sklearn (1 / 10) 100 42
     (map (standard_scaler (clean_frame example_training)) (clean_frame example_training))
   = Inr example_forest"
  unfolding example_scaled_frame
  by (simp add: example_sklearn_def offset_forest_def example_offset example_forest_def Let_def
      fun_eq_iff del: map_map list.map)



lemma example_fit_scaler: "fit_scaler example_sklearn = standard_scaler"
  by (simp add: example_sklearn_def)

lemma example_len: "length (clean_frame example_training) = 10"
  by (simp add: example_clean)


lemma example_detector_fields:
  "is_trained example_detector"
  "scaler example_detector = Some (standard_scaler (clean_frame example_training))"
  "model example_detector = Some example_forest"
  "baselines example_detector = compute_baselines (clean_frame example_training)"
  "contamination example_detector = 1 / 10"
  "threshold_multiplier example_detector = 2"
  by (simp_all add: example_detector_def train_def Let_def example_len example_fit
      example_fit_scaler AnomalyDetector_init_def)


lemma example_score:
  "returned (detect example_detector (example_metrics v)) \<noteq> None"
  "map_option score (returned (detect example_detector (example_metrics v))) = Some (2 - \<bar>(v - 50) / 10\<bar>)"
  "map_option is_anomaly (returned (detect example_detector (example_metrics v))) = Some (2 - \<bar>(v - 50) / 10\<bar> < 0)"
  by (simp_all add: detect_def example_detector_fields Let_def returned_def to_feature_array_def
      example_metrics_def example_scaled example_forest_def)

section \<open>Properties of the sliding window\<close>

lemma gappy_clean:
  "clean_frame gappy_training
     = map (\<lambda>v. [v, 30, 60, 90, 2 / 100]) [30, 40, 50, 50, 50, 50, 60, 70, 50]"
  by (simp add: clean_frame_def gappy_training_def example_row_def to_rows_def row_cells_def
      fillna_def frame_columns_of_def replace_inf_def dropna_def num_of_def upt_rec
      col_median_def finite_values_def Let_def)








section \<open>The example tracker, evaluated\<close>

lemma example_detect: "detect example_detector (example_metrics v) = Inr (example_result v)"
  using example_score(1)[of v]
  by (cases "detect example_detector (example_metrics v)") (simp_all add: returned_def example_result_def)

lemma example_result_flag: "is_anomaly (example_result v) \<longleftrightarrow> 2 - \<bar>(v - 50) / 10\<bar> < 0"
  using example_score(3)[of v] by (simp add: example_detect returned_def)

lemma example_result_score: "score (example_result v) = 2 - \<bar>(v - 50) / 10\<bar>"
  using example_score(2)[of v] by (simp add: example_detect returned_def)





section \<open>The conversion of a dict before the window is touched\<close>









section \<open>The round-to-nice function at 2340 (C2)\<close>

text \<open>
  Claim C2. At 2340 \<^verbatim>\<open>_round_to_nice_number\<close> returns 2300: the input is below 5000,
  where the code rounds to a multiple of 100. The claim, and the repository's
  \<^verbatim>\<open>test_round_to_nice_number\<close>, expect 2500 there.
\<close>

theorem round_to_nice_number_at_2340:
  "round_to_nice_number 2340 = 2300 \<and> round_to_nice_number 2340 \<noteq> 2500"
  by (simp add: round_to_nice_number_def py_round_def)

section \<open>Monotonicity of the recommended limit (C7, C8)\<close>

text \<open>
  Claim C7. For an endpoint that has a profile, and any tier and current limit, the
  recommended limit under the conservative strategy is at most the one under the balanced
  strategy, which is at most the one under the permissive strategy (all three calls return
  a recommendation).
\<close>

theorem recommended_limit_strategy_monotone:
  assumes "map_of (endpoint_profiles opt) e = Some p"
  shows "\<exists>lc lb lp.
           limit_of (recommend opt e t cur (Some CONSERVATIVE)) = Some lc
         \<and> limit_of (recommend opt e t cur (Some BALANCED)) = Some lb
         \<and> limit_of (recommend opt e t cur (Some PERMISSIVE)) = Some lp
         \<and> lc \<le> lb \<and> lb \<le> lp"
  using profiled_limit_strategy_mono[of opt p t]
  by (simp add: limit_of_profiled[OF assms])

theorem recommended_limit_strategy_monotone_witness:
  "map_of (endpoint_profiles (example_optimizer 5)) ''/a'' = Some (example_profile 5)
   \<and> (\<exists>lc lb lp.
           limit_of (recommend (example_optimizer 5) ''/a'' ''default'' None (Some CONSERVATIVE)) = Some lc
         \<and> limit_of (recommend (example_optimizer 5) ''/a'' ''default'' None (Some BALANCED)) = Some lb
         \<and> limit_of (recommend (example_optimizer 5) ''/a'' ''default'' None (Some PERMISSIVE)) = Some lp
         \<and> lc \<le> lb \<and> lb \<le> lp)"
proof -
  have h: "map_of (endpoint_profiles (example_optimizer 5)) ''/a'' = Some (example_profile 5)"
    by (simp add: example_profiles_5)
  from h recommended_limit_strategy_monotone[OF h, of "''default''" None] show ?thesis by blast
qed

text \<open>
  Claim C8, as amended. For a fixed endpoint and strategy the recommended limit does not
  decrease along the tiers free, basic, standard, premium, enterprise, provided the endpoint
  has a profile, or the tier table of the optimizer has all five tiers with base limits that
  do not decrease in that order (the default table does).
\<close>

theorem recommended_limit_tier_monotone:
  assumes "map_of (endpoint_profiles opt) e \<noteq> None \<or> tier_bases_ordered (tier_configs opt)"
  shows "\<exists>lf lb ls lp le.
           limit_of (recommend opt e ''free'' cur sa) = Some lf
         \<and> limit_of (recommend opt e ''basic'' cur sa) = Some lb
         \<and> limit_of (recommend opt e ''standard'' cur sa) = Some ls
         \<and> limit_of (recommend opt e ''premium'' cur sa) = Some lp
         \<and> limit_of (recommend opt e ''enterprise'' cur sa) = Some le
         \<and> lf \<le> lb \<and> lb \<le> ls \<and> ls \<le> lp \<and> lp \<le> le"
proof (cases "map_of (endpoint_profiles opt) e")
  case (Some p)
  let ?s = "case sa of None \<Rightarrow> strategy opt | Some s \<Rightarrow> s"
  have "profiled_limit opt p ''free'' ?s \<le> profiled_limit opt p ''basic'' ?s"
       "profiled_limit opt p ''basic'' ?s \<le> profiled_limit opt p ''standard'' ?s"
       "profiled_limit opt p ''standard'' ?s \<le> profiled_limit opt p ''premium'' ?s"
       "profiled_limit opt p ''premium'' ?s \<le> profiled_limit opt p ''enterprise'' ?s"
    by (rule profiled_limit_tier_mono, simp add: tier_multiplier_values)+
  then show ?thesis by (simp add: limit_of_profiled[OF Some])
next
  case None
  with assms have ord: "tier_bases_ordered (tier_configs opt)" by simp
  then obtain cf cb cs cp ce where c:
    "tier_configs opt FREE = Some cf" "tier_configs opt BASIC = Some cb"
    "tier_configs opt STANDARD = Some cs" "tier_configs opt PREMIUM = Some cp"
    "tier_configs opt ENTERPRISE = Some ce"
    and le: "base_limit cf \<le> base_limit cb" "base_limit cb \<le> base_limit cs"
      "base_limit cs \<le> base_limit cp" "base_limit cp \<le> base_limit ce"
    by (auto simp: tier_bases_ordered_def split: option.splits)
  let ?s = "case sa of None \<Rightarrow> strategy opt | Some s \<Rightarrow> s"
  have l: "limit_of (recommend opt e ''free'' cur sa) = Some (py_int (of_int (base_limit cf) * STRATEGY_MULTIPLIERS ?s))"
    "limit_of (recommend opt e ''basic'' cur sa) = Some (py_int (of_int (base_limit cb) * STRATEGY_MULTIPLIERS ?s))"
    "limit_of (recommend opt e ''standard'' cur sa) = Some (py_int (of_int (base_limit cs) * STRATEGY_MULTIPLIERS ?s))"
    "limit_of (recommend opt e ''premium'' cur sa) = Some (py_int (of_int (base_limit cp) * STRATEGY_MULTIPLIERS ?s))"
    "limit_of (recommend opt e ''enterprise'' cur sa) = Some (py_int (of_int (base_limit ce) * STRATEGY_MULTIPLIERS ?s))"
    using c by (simp_all add: limit_of_default[OF None] tier_mapping_values)
  show ?thesis unfolding l using le by (simp add: default_limit_mono)
qed

theorem recommended_limit_tier_monotone_witness:
  "tier_bases_ordered (tier_configs (RateLimitOptimizer_init BALANCED 20 None))
   \<and> limit_of (recommend (RateLimitOptimizer_init BALANCED 20 None) ''/x'' ''free'' None None) = Some 60
   \<and> limit_of (recommend (RateLimitOptimizer_init BALANCED 20 None) ''/x'' ''enterprise'' None None) = Some 5000
   \<and> (\<exists>lf lb ls lp le.
           limit_of (recommend (RateLimitOptimizer_init BALANCED 20 None) ''/x'' ''free'' None None) = Some lf
         \<and> limit_of (recommend (RateLimitOptimizer_init BALANCED 20 None) ''/x'' ''basic'' None None) = Some lb
         \<and> limit_of (recommend (RateLimitOptimizer_init BALANCED 20 None) ''/x'' ''standard'' None None) = Some ls
         \<and> limit_of (recommend (RateLimitOptimizer_init BALANCED 20 None) ''/x'' ''premium'' None None) = Some lp
         \<and> limit_of (recommend (RateLimitOptimizer_init BALANCED 20 None) ''/x'' ''enterprise'' None None) = Some le
         \<and> lf \<le> lb \<and> lb \<le> ls \<and> ls \<le> lp \<and> lp \<le> le)"
proof -
  let ?o = "RateLimitOptimizer_init BALANCED 20 None"
  have h: "map_of (endpoint_profiles ?o) ''/x'' \<noteq> None \<or> tier_bases_ordered (tier_configs ?o)"
    by (simp add: RateLimitOptimizer_init_def default_ordered)
  have v: "limit_of (recommend ?o ''/x'' ''free'' None None) = Some 60"
    "limit_of (recommend ?o ''/x'' ''enterprise'' None None) = Some 5000"
    by (simp_all add: RateLimitOptimizer_init_def limit_of_def recommend_def
        generate_default_recommendation_def tier_mapping_values DEFAULT_TIER_CONFIGS_def
        mk_tier_def STRATEGY_MULTIPLIERS_def py_int_def)
  have o: "tier_bases_ordered (tier_configs ?o)"
    by (simp add: RateLimitOptimizer_init_def default_ordered)
  from o v recommended_limit_tier_monotone[OF h, of None None] show ?thesis by blast
qed

text \<open>
  Without a profile the limit is read off the tier table given at construction, which is
  not checked: with a table whose free tier has base limit 1000 and whose basic tier has
  100, the free tier gets the higher limit.
\<close>

theorem recommended_limit_tier_counterexample:
  "limit_of (recommend inverted_optimizer ''/x'' ''free'' None None) = Some 1000
   \<and> limit_of (recommend inverted_optimizer ''/x'' ''basic'' None None) = Some 100"
  by (simp add: inverted_optimizer_def RateLimitOptimizer_init_def limit_of_def recommend_def
        generate_default_recommendation_def tier_mapping_values inverted_tier_configs_def
        mk_tier_def STRATEGY_MULTIPLIERS_def py_int_def)

section \<open>The typical burst size of a profile (C5)\<close>

text \<open>
  Claim C5, as amended. Every endpoint profile built by the traffic-analysis pass stores a
  non-negative peak rate, and its typical burst size is \<open>max(1, int(peak / 60 * 3))\<close>, where
  \<open>int\<close> truncates: the product is rounded down, not to the nearest integer.
\<close>

theorem typical_burst_size_truncates:
  assumes "(e, p) \<in> set (endpoint_profiles (analyze_traffic opt cols df))"
  shows "\<exists>peak. peak_requests_per_minute p = Some peak \<and> 0 \<le> peak
           \<and> typical_burst_size p = max 1 \<lfloor>peak / 60 * 3\<rfloor>"
proof -
  from assms obtain data where "p = build_endpoint_profile cols e data"
    by (auto simp: analyze_traffic_def)
  then show ?thesis using build_profile_peak[of cols e data] by simp
qed

theorem typical_burst_size_truncates_witness:
  "(''/a'', example_profile 31) \<in> set (endpoint_profiles (example_optimizer 31))
   \<and> (\<exists>peak. peak_requests_per_minute (example_profile 31) = Some peak \<and> 0 \<le> peak
           \<and> typical_burst_size (example_profile 31) = max 1 \<lfloor>peak / 60 * 3\<rfloor>)"
proof -
  have h: "(''/a'', example_profile 31) \<in> set (endpoint_profiles (analyze_traffic
             (RateLimitOptimizer_init BALANCED 20 None) example_columns (example_frame 31)))"
    using example_profiles_31 by (simp add: example_optimizer_def)
  from typical_burst_size_truncates[OF h] h show ?thesis
    by (simp add: example_optimizer_def)
qed

text \<open>
  With 31 requests in one minute the peak is 31 and \<open>31 / 60 * 3 = 1.55\<close>: the stored burst
  is 1, where rounding to the nearest integer gives 2.
\<close>

theorem typical_burst_size_counterexample:
  "endpoint_profiles (example_optimizer 31) = [(''/a'', example_profile 31)]
   \<and> peak_requests_per_minute (example_profile 31) = Some 31
   \<and> typical_burst_size (example_profile 31) = 1
   \<and> max 1 (py_round (31 / 60 * 3)) = 2
   \<and> \<not> nearest_multiple 1 (31 / 60 * 3) 1"
  by (simp add: example_profiles_31 example_profile_31 py_round_def nearest_multiple_def)

section \<open>The recommended burst (C4)\<close>

text \<open>
  Claim C4 says that the burst before the final rounding is the clamp of twice the typical
  burst between \<open>max(10, limit // 6)\<close> and the recommended limit, and so never exceeds the
  recommended limit. The code computes \<open>max(min_burst, min(2 * typical, limit))\<close>, which is
  that clamp from a limit of 10 on (\<open>burst_within_limit_from_ten\<close>); below 10 the lower bound
  wins and the burst is 10 (\<open>burst_above_limit_below_ten\<close>). The theorem runs the code on
  five requests to one endpoint within a minute, at the free tier: the recommended limit is
  5, the burst before rounding is 10, and the returned burst is 10.
\<close>

theorem burst_exceeds_limit_at_free_tier:
  "limit_of (recommend (example_optimizer 5) ''/a'' ''free'' None None) = Some 5
   \<and> burst_before_rounding (example_profile 5) 5 = 10
   \<and> burst_of (recommend (example_optimizer 5) ''/a'' ''free'' None None) = Some 10"
proof -
  have h: "map_of (endpoint_profiles (example_optimizer 5)) ''/a'' = Some (example_profile 5)"
    by (simp add: example_profiles_5)
  have s: "strategy (example_optimizer 5) = BALANCED"
    by (simp add: example_optimizer_def analyze_traffic_def RateLimitOptimizer_init_def)
  have b: "burst_before_rounding (example_profile 5) 5 = 10"
    by (simp add: burst_above_limit_below_ten)
  have r: "round_to_nice_number 10 = 10"
    by (simp add: round_to_nice_number_def py_round_def)
  show ?thesis
    by (simp add: limit_of_profiled[OF h] burst_of_profiled[OF h] s example_limit_free b r
        calculate_burst_size_def)
qed

section \<open>Detection score and flag (C1)\<close>




section \<open>The window bound (C9)\<close>




section \<open>Results that are not anomalies (C10)\<close>

text \<open>
  Claim C10. Whenever \<^verbatim>\<open>detect\<close> returns a result that is not an anomaly, the anomaly type
  and the severity of the result are \<open>None\<close> and its explanation is the fixed message
  ``Traffic patterns are within normal parameters.'', although
  \<^verbatim>\<open>_identify_anomaly_type\<close> has computed a candidate type for the sample.
\<close>

theorem normal_result_fields:
  assumes "detect d m = Inr r" "\<not> is_anomaly r"
  shows "anomaly_type r = None \<and> severity r = None
         \<and> explanation r = [Lit ''Traffic patterns are within normal parameters.'']
         \<and> (\<exists>ty. fst (identify_anomaly_type d m) = Some ty)"
  using detect_normal[OF assms] identify_anomaly_type_some[of d m] by simp

theorem normal_result_fields_witness:
  "detect example_detector (example_metrics 60) = Inr (example_result 60)
   \<and> \<not> is_anomaly (example_result 60)
   \<and> anomaly_type (example_result 60) = None \<and> severity (example_result 60) = None
   \<and> explanation (example_result 60) = [Lit ''Traffic patterns are within normal parameters.'']
   \<and> (\<exists>ty. fst (identify_anomaly_type example_detector (example_metrics 60)) = Some ty)"
proof -
  have h: "detect example_detector (example_metrics 60) = Inr (example_result 60)"
    by (rule example_detect)
  have n: "\<not> is_anomaly (example_result 60)"
    by (simp add: example_result_flag)
  from normal_result_fields[OF h n] h n show ?thesis by blast
qed

section \<open>Training on too little data (C6)\<close>

text \<open>
  Claim C6. When fewer than 10 rows are left after the missing values have been filled with
  the column medians and the rows with infinite values dropped, \<^verbatim>\<open>train\<close> fails with the
  error ``Insufficient training data. Need at least 10 samples.'' (a \<^verbatim>\<open>ValueError\<close>, the
  specification's InsufficientDataError), and the detector is returned as it was: scaler,
  ensemble model, baselines, score threshold and the trained flag are unchanged.
\<close>

theorem train_insufficient_data:
  assumes "length (clean_frame data) < 10"
  shows "train env now d data
           = (Inl (ValueError ''Insufficient training data. Need at least 10 samples.''), d)"
  using assms by (rule train_insufficient)

theorem train_insufficient_data_witness:
  "length (clean_frame small_training) < 10
   \<and> train example_sklearn 1 example_detector small_training
       = (Inl (ValueError ''Insufficient training data. Need at least 10 samples.''),
          example_detector)
   \<and> length (clean_frame gappy_training) < 10
   \<and> train example_sklearn 1 example_detector gappy_training
       = (Inl (ValueError ''Insufficient training data. Need at least 10 samples.''),
          example_detector)
   \<and> is_trained example_detector"
proof -
  have a: "length (clean_frame small_training) < 10" by (simp add: small_clean)
  have b: "length (clean_frame gappy_training) < 10" by (simp add: gappy_clean)
  from train_insufficient_data[OF a, of example_sklearn 1 example_detector]
       train_insufficient_data[OF b, of example_sklearn 1 example_detector]
       a b example_detector_fields(1)
  show ?thesis by blast
qed

section \<open>Calls before training (C3)\<close>





end
